theory Spec2Isabelle
  imports Main
begin

section \<open>Run-time values\<close>

text \<open>
  The server is a Node program, and what travels through it (tool arguments, decoded
  response bodies, the value held in the navigation state) are plain JavaScript
  values. \<open>Undefined\<close> is the value of a missing property or argument. Numbers are
  restricted to integers. An object is the list of its own properties in enumeration
  order, with distinct keys. A string is a list of characters; \<open>length\<close> and spreading
  agree with JavaScript on strings without surrogate pairs. \<open>Fun\<close> is a built-in
  function, with its \<open>name\<close> and its \<open>length\<close> (the number of its parameters): no
  request or response carries one, but a property read finds them on the prototypes.
\<close>

datatype jsval =
    Undefined
  | Null
  | Bool bool
  | Num int
  | Str string
  | Arr "jsval list"
  | Obj "(string \<times> jsval) list"
  | Fun string nat

text \<open>
  What the code can throw. \<open>Error\<close> is \<open>new Error(message)\<close> raised by the code itself;
  \<open>TypeError\<close> is raised by the runtime (a property read on \<open>null\<close> or \<open>undefined\<close>, a
  spread of a value that is not iterable), with the wording Node gives it;
  \<open>SyntaxError\<close> is a body that does not decode; \<open>FetchError\<close> is a rejected \<open>fetch\<close>.
  \<open>NotModelled\<close> marks what this development leaves out: the conversion of a string to
  a floating-point number, and the members of a function other than \<open>length\<close> and \<open>name\<close>.
  Neither is reached unless a page of \<open>getPaginated\<close> carries, under the name the caller
  gave, an object whose own \<open>length\<close> is a string or an array.
\<close>

datatype error =
    Error string
  | TypeError string
  | SyntaxError string
  | FetchError string
  | NotModelled

fun message :: "error \<Rightarrow> string" where
  "message (Error m) = m"
| "message (TypeError m) = m"
| "message (SyntaxError m) = m"
| "message (FetchError m) = m"
| "message NotModelled = []"

fun truthy :: "jsval \<Rightarrow> bool" where
  "truthy Undefined = False"
| "truthy Null = False"
| "truthy (Bool b) = b"
| "truthy (Num n) = (n \<noteq> 0)"
| "truthy (Str s) = (s \<noteq> [])"
| "truthy (Arr xs) = True"
| "truthy (Obj kvs) = True"
| "truthy (Fun f n) = True"

fun isArray :: "jsval \<Rightarrow> bool" where
  "isArray (Arr xs) = True"
| "isArray v = False"

text \<open>\<open>String(n)\<close> for a non-negative integer: its decimal digits.\<close>

fun string_of_nat :: "nat \<Rightarrow> string" where
  "string_of_nat n =
     (if n < 10 then [char_of (48 + n)]
      else string_of_nat (n div 10) @ [char_of (48 + n mod 10)])"

declare string_of_nat.simps [simp del]

text \<open>
  The members that a value inherits from the built-in prototypes, as Node 22 has them:
  each is a function, given with its name and its \<open>length\<close>. \<open>__proto__\<close> gives the
  prototype object itself, which has no enumerable property of its own and stands here
  as an empty object (an empty array for \<open>Array.prototype\<close>).
\<close>

definition native :: "string \<Rightarrow> nat \<Rightarrow> string \<times> jsval" where
  "native f n = (f, Fun f n)"

definition object_members :: "(string \<times> jsval) list" where
  "object_members =
     [(''constructor'', Fun ''Object'' 1),
      native ''__defineGetter__'' 2, native ''__defineSetter__'' 2,
      native ''hasOwnProperty'' 1, native ''__lookupGetter__'' 1,
      native ''__lookupSetter__'' 1, native ''isPrototypeOf'' 1,
      native ''propertyIsEnumerable'' 1, native ''toString'' 0, native ''valueOf'' 0,
      (''__proto__'', Obj []), native ''toLocaleString'' 0]"

definition array_members :: "(string \<times> jsval) list" where
  "array_members =
     [(''constructor'', Fun ''Array'' 1), (''__proto__'', Arr []),
      native ''at'' 1, native ''concat'' 1, native ''copyWithin'' 2, native ''fill'' 1,
      native ''find'' 1, native ''findIndex'' 1, native ''findLast'' 1,
      native ''findLastIndex'' 1, native ''lastIndexOf'' 1, native ''pop'' 0,
      native ''push'' 1, native ''reverse'' 0, native ''shift'' 0, native ''unshift'' 1,
      native ''slice'' 2, native ''sort'' 1, native ''splice'' 2, native ''includes'' 1,
      native ''indexOf'' 1, native ''join'' 1, native ''keys'' 0, native ''entries'' 0,
      native ''values'' 0, native ''forEach'' 1, native ''filter'' 1, native ''flat'' 0,
      native ''flatMap'' 1, native ''map'' 1, native ''every'' 1, native ''some'' 1,
      native ''reduce'' 1, native ''reduceRight'' 1, native ''toReversed'' 0,
      native ''toSorted'' 1, native ''toSpliced'' 2, native ''with'' 2,
      native ''toLocaleString'' 0, native ''toString'' 0]"

definition string_members :: "(string \<times> jsval) list" where
  "string_members =
     [(''constructor'', Fun ''String'' 1), (''__proto__'', Obj []),
      native ''anchor'' 1, native ''at'' 1, native ''big'' 0, native ''blink'' 0,
      native ''bold'' 0, native ''charAt'' 1, native ''charCodeAt'' 1,
      native ''codePointAt'' 1, native ''concat'' 1, native ''endsWith'' 1,
      native ''fontcolor'' 1, native ''fontsize'' 1, native ''fixed'' 0,
      native ''includes'' 1, native ''indexOf'' 1, native ''isWellFormed'' 0,
      native ''italics'' 0, native ''lastIndexOf'' 1, native ''link'' 1,
      native ''localeCompare'' 1, native ''match'' 1, native ''matchAll'' 1,
      native ''normalize'' 0, native ''padEnd'' 1, native ''padStart'' 1,
      native ''repeat'' 1, native ''replace'' 2, native ''replaceAll'' 2,
      native ''search'' 1, native ''slice'' 2, native ''small'' 0, native ''split'' 2,
      native ''strike'' 0, native ''sub'' 0, native ''substr'' 2, native ''substring'' 2,
      native ''sup'' 0, native ''startsWith'' 1, native ''toString'' 0,
      native ''toWellFormed'' 0, native ''trim'' 0, native ''trimStart'' 0,
      (''trimLeft'', Fun ''trimStart'' 0), native ''trimEnd'' 0,
      (''trimRight'', Fun ''trimEnd'' 0), native ''toLocaleLowerCase'' 0,
      native ''toLocaleUpperCase'' 0, native ''toLowerCase'' 0, native ''toUpperCase'' 0,
      native ''valueOf'' 0]"

definition number_members :: "(string \<times> jsval) list" where
  "number_members =
     [(''constructor'', Fun ''Number'' 1), (''__proto__'', Obj []),
      native ''toExponential'' 1, native ''toFixed'' 1, native ''toPrecision'' 1,
      native ''toString'' 1, native ''valueOf'' 0, native ''toLocaleString'' 0]"

definition boolean_members :: "(string \<times> jsval) list" where
  "boolean_members =
     [(''constructor'', Fun ''Boolean'' 1), (''__proto__'', Obj []),
      native ''toString'' 0, native ''valueOf'' 0]"

definition inherited :: "(string \<times> jsval) list \<Rightarrow> string \<Rightarrow> jsval" where
  "inherited members k =
     (case map_of (members @ object_members) k of Some v \<Rightarrow> v | None \<Rightarrow> Undefined)"

text \<open>
  A property read \<open>v[k]\<close>: the value's own property of that name, or else the member
  of that name which it inherits, or else \<open>undefined\<close>. An array or a string has its
  \<open>length\<close> and its elements under their decimal indices. Of a function only \<open>length\<close>
  and \<open>name\<close> are read here.
\<close>

definition index_of_key :: "string \<Rightarrow> nat \<Rightarrow> nat option" where
  "index_of_key k n = find (\<lambda>i. string_of_nat i = k) [0..<n]"

fun get_prop :: "jsval \<Rightarrow> string \<Rightarrow> error + jsval" where
  "get_prop Undefined k =
     Inl (TypeError (''Cannot read properties of undefined (reading '' @ [CHR 0x27] @ k @ [CHR 0x27] @ '')''))"
| "get_prop Null k =
     Inl (TypeError (''Cannot read properties of null (reading '' @ [CHR 0x27] @ k @ [CHR 0x27] @ '')''))"
| "get_prop (Obj kvs) k = Inr (case map_of kvs k of Some v \<Rightarrow> v | None \<Rightarrow> inherited [] k)"
| "get_prop (Arr xs) k =
     Inr (if k = ''length'' then Num (int (length xs))
          else case index_of_key k (length xs) of
                 Some i \<Rightarrow> xs ! i
               | None \<Rightarrow> inherited array_members k)"
| "get_prop (Str s) k =
     Inr (if k = ''length'' then Num (int (length s))
          else case index_of_key k (length s) of
                 Some i \<Rightarrow> Str [s ! i]
               | None \<Rightarrow> inherited string_members k)"
| "get_prop (Bool b) k = Inr (inherited boolean_members k)"
| "get_prop (Num n) k = Inr (inherited number_members k)"
| "get_prop (Fun f n) k =
     (if k = ''length'' then Inr (Num (int n))
      else if k = ''name'' then Inr (Str f)
      else Inl NotModelled)"

text \<open>\<open>Object.values(v)\<close>.\<close>

fun object_values :: "jsval \<Rightarrow> error + jsval list" where
  "object_values Undefined = Inl (TypeError ''Cannot convert undefined or null to object'')"
| "object_values Null = Inl (TypeError ''Cannot convert undefined or null to object'')"
| "object_values (Obj kvs) = Inr (map snd kvs)"
| "object_values (Arr xs) = Inr xs"
| "object_values (Str s) = Inr (map (\<lambda>c. Str [c]) s)"
| "object_values (Bool b) = Inr []"
| "object_values (Num n) = Inr []"
| "object_values (Fun f n) = Inr []"

text \<open>
  The conversion of a value to a number, as the comparisons \<open>>\<close> and \<open>>=\<close> apply it to
  their left operand. \<open>undefined\<close>, an object and a function convert to \<open>NaN\<close>. A string
  or an array converts through its text, which is left out: \<open>None\<close>.
\<close>

datatype number = NaN | Finite int

fun to_number :: "jsval \<Rightarrow> number option" where
  "to_number Undefined = Some NaN"
| "to_number Null = Some (Finite 0)"
| "to_number (Bool b) = Some (Finite (if b then 1 else 0))"
| "to_number (Num m) = Some (Finite m)"
| "to_number (Obj kvs) = Some NaN"
| "to_number (Str s) = None"
| "to_number (Arr xs) = None"
| "to_number (Fun f n) = Some NaN"

text \<open>\<open>v > n\<close> and \<open>v >= n\<close>; a comparison with \<open>NaN\<close> is false.\<close>

definition js_gt :: "jsval \<Rightarrow> int \<Rightarrow> bool option" where
  "js_gt v n = (case to_number v of
                  None \<Rightarrow> None
                | Some NaN \<Rightarrow> Some False
                | Some (Finite m) \<Rightarrow> Some (m > n))"

definition js_ge :: "jsval \<Rightarrow> int \<Rightarrow> bool option" where
  "js_ge v n = (case to_number v of
                  None \<Rightarrow> None
                | Some NaN \<Rightarrow> Some False
                | Some (Finite m) \<Rightarrow> Some (m \<ge> n))"

text \<open>
  The spread \<open>...items\<close> in the argument list of \<open>push\<close>: the elements of an array, the
  characters of a string; any other value is not iterable. The message for \<open>null\<close> and
  \<open>undefined\<close> names the operand as the source writes it.
\<close>

fun spread :: "jsval \<Rightarrow> error + jsval list" where
  "spread (Arr xs) = Inr xs"
| "spread (Str s) = Inr (map (\<lambda>c. Str [c]) s)"
| "spread Undefined =
     Inl (TypeError ''items is not iterable (cannot read property Symbol(Symbol.iterator))'')"
| "spread Null =
     Inl (TypeError ''items is not iterable (cannot read property Symbol(Symbol.iterator))'')"
| "spread v = Inl (TypeError ''Spread syntax requires ...iterable[Symbol.iterator] to be a function'')"

text \<open>\<open>parts.join(sep)\<close> for an array of strings.\<close>

fun join :: "string \<Rightarrow> string list \<Rightarrow> string" where
  "join sep [] = []"
| "join sep [x] = x"
| "join sep (x # y # ys) = x @ sep @ join sep (y # ys)"

text \<open>
  \<open>String(v)\<close>, which is also what a template literal and \<open>URLSearchParams\<close> make of a
  value. An array is its elements joined by commas, \<open>null\<close> and \<open>undefined\<close> elements
  counting as empty.
\<close>

fun to_string :: "jsval \<Rightarrow> string" where
  "to_string Undefined = ''undefined''"
| "to_string Null = ''null''"
| "to_string (Bool b) = (if b then ''true'' else ''false'')"
| "to_string (Num n) = (if n < 0 then ''-'' @ string_of_nat (nat (- n)) else string_of_nat (nat n))"
| "to_string (Str s) = s"
| "to_string (Arr xs) =
     join '','' (map (\<lambda>x. if x = Undefined \<or> x = Null then [] else to_string x) xs)"
| "to_string (Obj kvs) = ''[object Object]''"
| "to_string (Fun f n) = ''function '' @ f @ ''() { [native code] }''"

text \<open>
  The assignment \<open>obj[k] = v\<close> on an object given as its list of properties: in place
  when the object has the property, at the end otherwise.
\<close>

fun assign :: "string \<Rightarrow> 'a \<Rightarrow> (string \<times> 'a) list \<Rightarrow> (string \<times> 'a) list" where
  "assign k v [] = [(k, v)]"
| "assign k v (p # ps) = (if fst p = k then (k, v) # ps else p # assign k v ps)"

section \<open>The REST client (utils/client.ts)\<close>

definition XERO_API_BASE :: string where
  "XERO_API_BASE = ''https://api.xero.com/api.xro/2.0''"

definition XERO_PAGE_SIZE :: nat where
  "XERO_PAGE_SIZE = 100"

record XeroClientConfig =
  accessToken :: string
  tenantId :: string

text \<open>A \<open>XeroClient\<close> holds its configuration and nothing else.\<close>

record XeroClient =
  config :: XeroClientConfig

text \<open>
  The outbound call. The request is kept structured: the URL without its query string,
  the query parameters that \<open>URLSearchParams\<close> would encode after a \<open>?\<close> (none when the
  list is empty), and the body before \<open>JSON.stringify\<close>. \<open>http_request_of\<close> is the
  \<open>url\<close>, \<open>headers\<close> and \<open>options\<close> that \<open>request\<close> puts together.
\<close>

record http_request =
  http_method :: string
  url :: string
  query :: "(string \<times> string) list"
  headers :: "(string \<times> string) list"
  body :: "jsval option"

text \<open>
  A response: its status, its raw text, and what \<open>response.json()\<close> gives (a
  \<open>SyntaxError\<close> when the text does not decode). \<open>response.ok\<close> is a status in the
  range 200 to 299.
\<close>

record http_response =
  status :: nat
  body_text :: string
  body_json :: "error + jsval"

definition ok :: "http_response \<Rightarrow> bool" where
  "ok r = (200 \<le> status r \<and> status r \<le> 299)"

datatype fetch_result = Rejected error | Response http_response

text \<open>
  \<open>fetch\<close> is the outside world: it answers a request and may change the state \<open>'srv\<close>
  of whatever is behind it.
\<close>

type_synonym 'srv fetch = "http_request \<Rightarrow> 'srv \<Rightarrow> fetch_result \<times> 'srv"

definition http_request_of ::
  "XeroClient \<Rightarrow> string \<Rightarrow> string \<Rightarrow> (string \<times> string) list option \<Rightarrow> jsval \<Rightarrow> http_request" where
  "http_request_of this method path params body_arg =
     \<lparr> http_method = method,
       url = XERO_API_BASE @ ''/'' @ path,
       query = (case params of None \<Rightarrow> [] | Some ps \<Rightarrow> ps),
       headers =
         [(''Authorization'', ''Bearer '' @ accessToken (config this)),
          (''xero-tenant-id'', tenantId (config this)),
          (''Content-Type'', ''application/json''),
          (''Accept'', ''application/json'')],
       body = (if body_arg \<noteq> Undefined then Some body_arg else None) \<rparr>"

definition request ::
  "'srv fetch \<Rightarrow> XeroClient \<Rightarrow> string \<Rightarrow> string \<Rightarrow> (string \<times> string) list option \<Rightarrow> jsval
     \<Rightarrow> 'srv \<Rightarrow> (error + jsval) \<times> 'srv" where
  "request fetch this method path params body_arg s =
     (case fetch (http_request_of this method path params body_arg) s of
        (Rejected e, s') \<Rightarrow> (Inl e, s')
      | (Response response, s') \<Rightarrow>
          if \<not> ok response then
            (Inl (Error (''Xero API error '' @ method @ '' /'' @ path @ '' (''
                         @ string_of_nat (status response) @ ''): '' @ body_text response)), s')
          else if status response = 204 then (Inr Null, s')
          else (body_json response, s'))"

definition get ::
  "'srv fetch \<Rightarrow> XeroClient \<Rightarrow> string \<Rightarrow> (string \<times> string) list option
     \<Rightarrow> 'srv \<Rightarrow> (error + jsval) \<times> 'srv" where
  "get fetch this path params = request fetch this ''GET'' path params Undefined"

definition post ::
  "'srv fetch \<Rightarrow> XeroClient \<Rightarrow> string \<Rightarrow> jsval \<Rightarrow> 'srv \<Rightarrow> (error + jsval) \<times> 'srv" where
  "post fetch this path body_arg = request fetch this ''POST'' path None body_arg"

definition put ::
  "'srv fetch \<Rightarrow> XeroClient \<Rightarrow> string \<Rightarrow> jsval \<Rightarrow> 'srv \<Rightarrow> (error + jsval) \<times> 'srv" where
  "put fetch this path body_arg = request fetch this ''PUT'' path None body_arg"

definition delete ::
  "'srv fetch \<Rightarrow> XeroClient \<Rightarrow> string \<Rightarrow> 'srv \<Rightarrow> (error + jsval) \<times> 'srv" where
  "delete fetch this path = request fetch this ''DELETE'' path None Undefined"

text \<open>
  \<open>{...params, page: String(page)}\<close>: the caller's parameters with \<open>page\<close> set, in
  place when the caller gave one and at the end otherwise.
\<close>

definition page_params :: "(string \<times> string) list option \<Rightarrow> nat \<Rightarrow> (string \<times> string) list" where
  "page_params params page =
     assign ''page'' (string_of_nat page) (case params of None \<Rightarrow> [] | Some ps \<Rightarrow> ps)"

text \<open>
  The items of one page: the field the caller named, or the first array among the
  values of the response. A name that is \<open>undefined\<close> or the empty string is no name.
\<close>

definition select_items :: "string option \<Rightarrow> jsval \<Rightarrow> error + jsval" where
  "select_items responseKey response =
     (case responseKey of
        Some k \<Rightarrow>
          if k \<noteq> [] then get_prop response k
          else (case object_values response of
                  Inl e \<Rightarrow> Inl e
                | Inr vs \<Rightarrow> Inr (case find isArray vs of Some v \<Rightarrow> v | None \<Rightarrow> Undefined))
      | None \<Rightarrow>
          (case object_values response of
             Inl e \<Rightarrow> Inl e
           | Inr vs \<Rightarrow> Inr (case find isArray vs of Some v \<Rightarrow> v | None \<Rightarrow> Undefined)))"

text \<open>
  \<open>items.length\<close>, read only once \<open>items\<close> is known to be truthy.
\<close>

definition items_length :: "jsval \<Rightarrow> jsval" where
  "items_length items = (case get_prop items ''length'' of Inl e \<Rightarrow> Undefined | Inr v \<Rightarrow> v)"

text \<open>
  The loop of \<open>getPaginated\<close>, with its variables \<open>allItems\<close> and \<open>page\<close> as arguments;
  \<open>hasMore\<close> is the choice between the recursive call and the return. The loop has no
  bound of its own: \<open>None\<close> is a run that never returns.
\<close>

partial_function (option) getPaginated_loop ::
  "'srv fetch \<Rightarrow> XeroClient \<Rightarrow> string \<Rightarrow> (string \<times> string) list option \<Rightarrow> string option
     \<Rightarrow> jsval list \<Rightarrow> nat \<Rightarrow> 'srv \<Rightarrow> ((error + jsval list) \<times> 'srv) option" where
  "getPaginated_loop fetch this path params responseKey allItems page s =
     (case get fetch this path (Some (page_params params page)) s of
        (Inl e, s') \<Rightarrow> Some (Inl e, s')
      | (Inr response, s') \<Rightarrow>
          (case select_items responseKey response of
             Inl e \<Rightarrow> Some (Inl e, s')
           | Inr items \<Rightarrow>
               if \<not> truthy items then Some (Inr allItems, s')
               else (case js_gt (items_length items) 0 of
                       None \<Rightarrow> Some (Inl NotModelled, s')
                     | Some positive \<Rightarrow>
                         if \<not> positive then Some (Inr allItems, s')
                         else (case spread items of
                                 Inl e \<Rightarrow> Some (Inl e, s')
                               | Inr xs \<Rightarrow>
                                   (case js_ge (items_length items) (int XERO_PAGE_SIZE) of
                                      None \<Rightarrow> Some (Inl NotModelled, s')
                                    | Some hasMore \<Rightarrow>
                                        if hasMore
                                        then getPaginated_loop fetch this path params responseKey
                                               (allItems @ xs) (page + 1) s'
                                        else Some (Inr (allItems @ xs), s'))))))"

definition getPaginated ::
  "'srv fetch \<Rightarrow> XeroClient \<Rightarrow> string \<Rightarrow> (string \<times> string) list option \<Rightarrow> string option
     \<Rightarrow> 'srv \<Rightarrow> ((error + jsval list) \<times> 'srv) option" where
  "getPaginated fetch this path params responseKey s =
     getPaginated_loop fetch this path params responseKey [] 1 s"

text \<open>
  The module state of the client: the lazily built singleton \<open>_client\<close> and the two
  entries of \<open>process.env\<close> it is built from.
\<close>

record process =
  client_instance :: "XeroClient option"
  env :: "string \<rightharpoonup> string"

text \<open>\<open>!v\<close> for a value that is a string or \<open>undefined\<close>: missing or empty.\<close>

fun absent :: "string option \<Rightarrow> bool" where
  "absent None = True"
| "absent (Some v) = (v = [])"

definition getClient :: "process \<Rightarrow> (error + XeroClient) \<times> process" where
  "getClient p =
     (case client_instance p of
        Some c \<Rightarrow> (Inr c, p)
      | None \<Rightarrow>
          (let token = env p ''XERO_ACCESS_TOKEN'';
               tenant = env p ''XERO_TENANT_ID''
           in if absent token \<or> absent tenant then
                (Inl (Error (''XERO_ACCESS_TOKEN and XERO_TENANT_ID environment variables are required. ''
                             @ ''In gateway mode, these are set from request headers automatically.'')), p)
              else
                (let c = \<lparr> config = \<lparr> accessToken = the token, tenantId = the tenant \<rparr> \<rparr>
                 in (Inr c, p\<lparr> client_instance := Some c \<rparr>))))"

definition resetClient :: "process \<Rightarrow> process" where
  "resetClient p = p\<lparr> client_instance := None \<rparr>"

section \<open>The domain tools (domains/*.ts)\<close>

text \<open>
  A tool descriptor is constant data. Listing and dispatch read its \<open>name\<close> only; the
  description and the input schema travel with it unread and are left out.
\<close>

record Tool =
  name :: string

definition contactTools :: "Tool list" where
  "contactTools =
     [\<lparr> name = ''xero_contacts_list'' \<rparr>,
      \<lparr> name = ''xero_contacts_get'' \<rparr>,
      \<lparr> name = ''xero_contacts_create'' \<rparr>,
      \<lparr> name = ''xero_contacts_search'' \<rparr>]"

definition invoiceTools :: "Tool list" where
  "invoiceTools =
     [\<lparr> name = ''xero_invoices_list'' \<rparr>,
      \<lparr> name = ''xero_invoices_get'' \<rparr>,
      \<lparr> name = ''xero_invoices_create'' \<rparr>,
      \<lparr> name = ''xero_invoices_update_status'' \<rparr>]"

definition paymentTools :: "Tool list" where
  "paymentTools =
     [\<lparr> name = ''xero_payments_list'' \<rparr>,
      \<lparr> name = ''xero_payments_get'' \<rparr>,
      \<lparr> name = ''xero_payments_create'' \<rparr>]"

definition accountTools :: "Tool list" where
  "accountTools =
     [\<lparr> name = ''xero_accounts_list'' \<rparr>,
      \<lparr> name = ''xero_accounts_get'' \<rparr>]"

definition reportTools :: "Tool list" where
  "reportTools =
     [\<lparr> name = ''xero_reports_profit_and_loss'' \<rparr>,
      \<lparr> name = ''xero_reports_balance_sheet'' \<rparr>,
      \<lparr> name = ''xero_reports_aged_receivables'' \<rparr>,
      \<lparr> name = ''xero_reports_aged_payables'' \<rparr>]"

text \<open>
  The result of a tool call: the text items of \<open>content\<close>, and \<open>isError\<close>, which is
  \<open>False\<close> where the code leaves the flag out.
\<close>

record CallToolResult =
  content :: "string list"
  isError :: bool

type_synonym args = "(string \<times> jsval) list"

text \<open>
  Every known case of the five handlers ends the same way: it awaits one call of the
  client and returns \<open>JSON.stringify(response, null, 2)\<close> as its only text item; what the
  call throws, the handler throws. The printer \<open>stringify\<close> is a parameter: nothing that
  follows depends on the text it gives.
\<close>

definition text_result ::
  "(jsval \<Rightarrow> string) \<Rightarrow> process \<Rightarrow> (error + jsval) \<times> 'srv
     \<Rightarrow> (error + CallToolResult) \<times> process \<times> 'srv" where
  "text_result stringify p r =
     (case r of
        (Inl e, s') \<Rightarrow> (Inl e, p, s')
      | (Inr response, s') \<Rightarrow>
          (Inr \<lparr> content = [stringify response], isError = False \<rparr>, p, s'))"

text \<open>
  A handler reads its arguments by name; what it reads is whatever value the caller
  sent (\<open>arg\<close>), \<open>undefined\<close> when the name is missing. Values placed in a template or
  among the query parameters are converted to text (\<open>to_string\<close>). \<open>add_if\<close> is a
  conditional assignment \<open>if (c) obj.k = v\<close>.
\<close>

definition arg :: "args \<Rightarrow> string \<Rightarrow> jsval" where
  "arg a k = (case map_of a k of Some v \<Rightarrow> v | None \<Rightarrow> Undefined)"

definition add_if :: "bool \<Rightarrow> string \<Rightarrow> 'a \<Rightarrow> (string \<times> 'a) list \<Rightarrow> (string \<times> 'a) list" where
  "add_if c k v obj = (if c then assign k v obj else obj)"

definition quoted :: "jsval \<Rightarrow> string" where
  "quoted v = [CHR 0x22] @ to_string v @ [CHR 0x22]"

type_synonym 'srv handler =
  "(jsval \<Rightarrow> string) \<Rightarrow> 'srv fetch \<Rightarrow> string \<Rightarrow> args
     \<Rightarrow> process \<Rightarrow> 'srv \<Rightarrow> (error + CallToolResult) \<times> process \<times> 'srv"

definition handleContactTool :: "'srv handler" where
  "handleContactTool stringify fetch tool_name tool_args p s =
     (case getClient p of
        (Inl e, p') \<Rightarrow> (Inl e, p', s)
      | (Inr client, p') \<Rightarrow>
          if tool_name = ''xero_contacts_list'' then
            (let page = arg tool_args ''page'';
                 where_arg = arg tool_args ''where'';
                 params = add_if (truthy where_arg) ''where'' (to_string where_arg)
                            (add_if (page \<noteq> Undefined) ''page'' (to_string page) [])
             in text_result stringify p' (get fetch client ''Contacts'' (Some params) s))
          else if tool_name = ''xero_contacts_get'' then
            (let contactId = arg tool_args ''contactId''
             in text_result stringify p'
                  (get fetch client (''Contacts/'' @ to_string contactId) None s))
          else if tool_name = ''xero_contacts_create'' then
            (let Name = arg tool_args ''Name'';
                 EmailAddress = arg tool_args ''EmailAddress'';
                 FirstName = arg tool_args ''FirstName'';
                 LastName = arg tool_args ''LastName'';
                 Phone = arg tool_args ''Phone'';
                 AccountNumber = arg tool_args ''AccountNumber'';
                 TaxNumber = arg tool_args ''TaxNumber'';
                 IsCustomer = arg tool_args ''IsCustomer'';
                 IsSupplier = arg tool_args ''IsSupplier'';
                 contact =
                   add_if (IsSupplier \<noteq> Undefined) ''IsSupplier'' IsSupplier
                  (add_if (IsCustomer \<noteq> Undefined) ''IsCustomer'' IsCustomer
                  (add_if (truthy TaxNumber) ''TaxNumber'' TaxNumber
                  (add_if (truthy AccountNumber) ''AccountNumber'' AccountNumber
                  (add_if (truthy Phone) ''Phones''
                     (Arr [Obj [(''PhoneType'', Str ''DEFAULT''), (''PhoneNumber'', Phone)]])
                  (add_if (truthy LastName) ''LastName'' LastName
                  (add_if (truthy FirstName) ''FirstName'' FirstName
                  (add_if (truthy EmailAddress) ''EmailAddress'' EmailAddress
                     [(''Name'', Name)])))))))
             in text_result stringify p'
                  (post fetch client ''Contacts'' (Obj [(''Contacts'', Arr [Obj contact])]) s))
          else if tool_name = ''xero_contacts_search'' then
            (let term = arg tool_args ''term'';
                 params = [(''where'', ''Name.Contains('' @ quoted term @ '')'')]
             in text_result stringify p' (get fetch client ''Contacts'' (Some params) s))
          else (Inr \<lparr> content = [''Unknown contact tool: '' @ tool_name], isError = True \<rparr>, p', s))"

definition handleInvoiceTool :: "'srv handler" where
  "handleInvoiceTool stringify fetch tool_name tool_args p s =
     (case getClient p of
        (Inl e, p') \<Rightarrow> (Inl e, p', s)
      | (Inr client, p') \<Rightarrow>
          if tool_name = ''xero_invoices_list'' then
            (let page = arg tool_args ''page'';
                 Status = arg tool_args ''Status'';
                 Type = arg tool_args ''Type'';
                 filters = (if truthy Status then [''Status=='' @ quoted Status] else [])
                           @ (if truthy Type then [''Type=='' @ quoted Type] else []);
                 params = add_if (length filters > 0) ''where'' (join '' AND '' filters)
                            (add_if (page \<noteq> Undefined) ''page'' (to_string page) [])
             in text_result stringify p' (get fetch client ''Invoices'' (Some params) s))
          else if tool_name = ''xero_invoices_get'' then
            (let invoiceId = arg tool_args ''invoiceId''
             in text_result stringify p'
                  (get fetch client (''Invoices/'' @ to_string invoiceId) None s))
          else if tool_name = ''xero_invoices_create'' then
            (let Type = arg tool_args ''Type'';
                 ContactID = arg tool_args ''ContactID'';
                 LineItems = arg tool_args ''LineItems'';
                 Date = arg tool_args ''Date'';
                 DueDate = arg tool_args ''DueDate'';
                 Reference = arg tool_args ''Reference'';
                 Status = arg tool_args ''Status'';
                 invoice =
                   add_if (truthy Status) ''Status'' Status
                  (add_if (truthy Reference) ''Reference'' Reference
                  (add_if (truthy DueDate) ''DueDate'' DueDate
                  (add_if (truthy Date) ''Date'' Date
                     [(''Type'', Type),
                      (''Contact'', Obj [(''ContactID'', ContactID)]),
                      (''LineItems'', LineItems)])))
             in text_result stringify p'
                  (post fetch client ''Invoices'' (Obj [(''Invoices'', Arr [Obj invoice])]) s))
          else if tool_name = ''xero_invoices_update_status'' then
            (let invoiceId = arg tool_args ''invoiceId'';
                 Status = arg tool_args ''Status''
             in text_result stringify p'
                  (post fetch client (''Invoices/'' @ to_string invoiceId)
                     (Obj [(''InvoiceID'', invoiceId), (''Status'', Status)]) s))
          else (Inr \<lparr> content = [''Unknown invoice tool: '' @ tool_name], isError = True \<rparr>, p', s))"

definition handlePaymentTool :: "'srv handler" where
  "handlePaymentTool stringify fetch tool_name tool_args p s =
     (case getClient p of
        (Inl e, p') \<Rightarrow> (Inl e, p', s)
      | (Inr client, p') \<Rightarrow>
          if tool_name = ''xero_payments_list'' then
            (let page = arg tool_args ''page'';
                 Status = arg tool_args ''Status'';
                 params = add_if (truthy Status) ''where'' (''Status=='' @ quoted Status)
                            (add_if (page \<noteq> Undefined) ''page'' (to_string page) [])
             in text_result stringify p' (get fetch client ''Payments'' (Some params) s))
          else if tool_name = ''xero_payments_get'' then
            (let paymentId = arg tool_args ''paymentId''
             in text_result stringify p'
                  (get fetch client (''Payments/'' @ to_string paymentId) None s))
          else if tool_name = ''xero_payments_create'' then
            (let InvoiceID = arg tool_args ''InvoiceID'';
                 AccountID = arg tool_args ''AccountID'';
                 Amount = arg tool_args ''Amount'';
                 Date = arg tool_args ''Date'';
                 Reference = arg tool_args ''Reference'';
                 payment =
                   add_if (truthy Reference) ''Reference'' Reference
                     [(''Invoice'', Obj [(''InvoiceID'', InvoiceID)]),
                      (''Account'', Obj [(''AccountID'', AccountID)]),
                      (''Amount'', Amount),
                      (''Date'', Date)]
             in text_result stringify p'
                  (post fetch client ''Payments'' (Obj [(''Payments'', Arr [Obj payment])]) s))
          else (Inr \<lparr> content = [''Unknown payment tool: '' @ tool_name], isError = True \<rparr>, p', s))"

definition handleAccountTool :: "'srv handler" where
  "handleAccountTool stringify fetch tool_name tool_args p s =
     (case getClient p of
        (Inl e, p') \<Rightarrow> (Inl e, p', s)
      | (Inr client, p') \<Rightarrow>
          if tool_name = ''xero_accounts_list'' then
            (let Type = arg tool_args ''Type'';
                 Class = arg tool_args ''Class'';
                 filters = (if truthy Type then [''Type=='' @ quoted Type] else [])
                           @ (if truthy Class then [''Class=='' @ quoted Class] else []);
                 params = add_if (length filters > 0) ''where'' (join '' AND '' filters) []
             in text_result stringify p' (get fetch client ''Accounts'' (Some params) s))
          else if tool_name = ''xero_accounts_get'' then
            (let accountId = arg tool_args ''accountId''
             in text_result stringify p'
                  (get fetch client (''Accounts/'' @ to_string accountId) None s))
          else (Inr \<lparr> content = [''Unknown account tool: '' @ tool_name], isError = True \<rparr>, p', s))"

definition handleReportTool :: "'srv handler" where
  "handleReportTool stringify fetch tool_name tool_args p s =
     (case getClient p of
        (Inl e, p') \<Rightarrow> (Inl e, p', s)
      | (Inr client, p') \<Rightarrow>
          if tool_name = ''xero_reports_profit_and_loss'' then
            (let fromDate = arg tool_args ''fromDate'';
                 toDate = arg tool_args ''toDate'';
                 params = [(''fromDate'', to_string fromDate), (''toDate'', to_string toDate)]
             in text_result stringify p'
                  (get fetch client ''Reports/ProfitAndLoss'' (Some params) s))
          else if tool_name = ''xero_reports_balance_sheet'' then
            (let date = arg tool_args ''date''
             in text_result stringify p'
                  (get fetch client ''Reports/BalanceSheet'' (Some [(''date'', to_string date)]) s))
          else if tool_name = ''xero_reports_aged_receivables'' then
            (let date = arg tool_args ''date''
             in text_result stringify p'
                  (get fetch client ''Reports/AgedReceivablesByContact''
                     (Some [(''date'', to_string date)]) s))
          else if tool_name = ''xero_reports_aged_payables'' then
            (let date = arg tool_args ''date''
             in text_result stringify p'
                  (get fetch client ''Reports/AgedPayablesByContact''
                     (Some [(''date'', to_string date)]) s))
          else (Inr \<lparr> content = [''Unknown report tool: '' @ tool_name], isError = True \<rparr>, p', s))"

section \<open>The server (index.ts)\<close>

datatype Domain = Contacts | Invoices | Payments | Accounts | Reports

fun domain_literal :: "Domain \<Rightarrow> string" where
  "domain_literal Contacts = ''contacts''"
| "domain_literal Invoices = ''invoices''"
| "domain_literal Payments = ''payments''"
| "domain_literal Accounts = ''accounts''"
| "domain_literal Reports = ''reports''"

text \<open>
  \<open>currentDomain\<close> is declared \<open>Domain | null\<close>, but what it holds at run time is whatever
  was assigned to it: a value.
\<close>

record ServerState =
  currentDomain :: jsval

definition initial_state :: ServerState where
  "initial_state = \<lparr> currentDomain = Null \<rparr>"

text \<open>
  \<open>getDomainTools\<close> is a \<open>switch\<close> over the five literals. \<open>switch_Domain\<close> is the case the
  \<open>switch\<close> takes for a value, \<open>None\<close> when no case matches and the function returns
  \<open>undefined\<close>.
\<close>

fun getDomainTools :: "Domain \<Rightarrow> Tool list" where
  "getDomainTools Contacts = contactTools"
| "getDomainTools Invoices = invoiceTools"
| "getDomainTools Payments = paymentTools"
| "getDomainTools Accounts = accountTools"
| "getDomainTools Reports = reportTools"

definition switch_Domain :: "jsval \<Rightarrow> Domain option" where
  "switch_Domain v =
     (if v = Str ''contacts'' then Some Contacts
      else if v = Str ''invoices'' then Some Invoices
      else if v = Str ''payments'' then Some Payments
      else if v = Str ''accounts'' then Some Accounts
      else if v = Str ''reports'' then Some Reports
      else None)"

definition navigateTool :: Tool where
  "navigateTool = \<lparr> name = ''xero_navigate'' \<rparr>"

definition backTool :: Tool where
  "backTool = \<lparr> name = ''xero_back'' \<rparr>"

text \<open>
  The \<open>ListTools\<close> handler. It reads the state and changes nothing. In a state whose
  domain no case of the \<open>switch\<close> matches, it spreads \<open>undefined\<close> and throws.
\<close>

definition ListTools :: "ServerState \<Rightarrow> error + Tool list" where
  "ListTools state =
     (if currentDomain state = Null then Inr [navigateTool]
      else (case switch_Domain (currentDomain state) of
              None \<Rightarrow>
                Inl (TypeError (''getDomainTools(...) is not iterable ''
                                @ ''(cannot read property Symbol(Symbol.iterator))''))
            | Some d \<Rightarrow> Inr (backTool # getDomainTools d)))"

definition startsWith :: "string \<Rightarrow> string \<Rightarrow> bool" where
  "startsWith s p = (take (length p) s = p)"

text \<open>
  The body of the \<open>try\<close> block of the \<open>CallTool\<close> handler. \<open>tool_args\<close> is
  \<open>request.params.arguments\<close>, \<open>None\<close> when the request has none. An assignment to the
  state made before a throw stays made, so the state is returned beside the outcome.
\<close>

definition CallTool_try ::
  "(jsval \<Rightarrow> string) \<Rightarrow> 'srv fetch \<Rightarrow> string \<Rightarrow> args option
     \<Rightarrow> ServerState \<Rightarrow> process \<Rightarrow> 'srv
     \<Rightarrow> (error + CallToolResult) \<times> ServerState \<times> process \<times> 'srv" where
  "CallTool_try stringify fetch tool_name tool_args state p s =
     (if tool_name = ''xero_navigate'' then
        (case tool_args of
           None \<Rightarrow>
             (Inl (TypeError (''Cannot destructure property '' @ [CHR 0x27] @ ''domain'' @ [CHR 0x27]
                              @ '' of '' @ [CHR 0x27] @ ''args'' @ [CHR 0x27] @ '' as it is undefined.'')),
              state, p, s)
         | Some a \<Rightarrow>
             (let domain = arg a ''domain'';
                  state' = state\<lparr> currentDomain := domain \<rparr>
              in case switch_Domain domain of
                   None \<Rightarrow>
                     (Inl (TypeError (''Cannot read properties of undefined (reading ''
                                      @ [CHR 0x27] @ ''map'' @ [CHR 0x27] @ '')'')),
                      state', p, s)
                 | Some d \<Rightarrow>
                     (let domainTools = getDomainTools d;
                          toolNames = join '', '' (map name domainTools)
                      in (Inr \<lparr> content = [''Navigated to '' @ domain_literal d
                                             @ '' domain. Available tools: '' @ toolNames],
                                isError = False \<rparr>,
                          state', p, s))))
      else if tool_name = ''xero_back'' then
        (Inr \<lparr> content = [''Returned to domain selection. Use xero_navigate to select a domain: ''
                           @ ''contacts, invoices, payments, accounts, reports''],
               isError = False \<rparr>,
         state\<lparr> currentDomain := Null \<rparr>, p, s)
      else
        (let toolArgs = (case tool_args of None \<Rightarrow> [] | Some a \<Rightarrow> a)
         in if startsWith tool_name ''xero_contacts_'' then
              (case handleContactTool stringify fetch tool_name toolArgs p s of
                 (r, p', s') \<Rightarrow> (r, state, p', s'))
            else if startsWith tool_name ''xero_invoices_'' then
              (case handleInvoiceTool stringify fetch tool_name toolArgs p s of
                 (r, p', s') \<Rightarrow> (r, state, p', s'))
            else if startsWith tool_name ''xero_payments_'' then
              (case handlePaymentTool stringify fetch tool_name toolArgs p s of
                 (r, p', s') \<Rightarrow> (r, state, p', s'))
            else if startsWith tool_name ''xero_accounts_'' then
              (case handleAccountTool stringify fetch tool_name toolArgs p s of
                 (r, p', s') \<Rightarrow> (r, state, p', s'))
            else if startsWith tool_name ''xero_reports_'' then
              (case handleReportTool stringify fetch tool_name toolArgs p s of
                 (r, p', s') \<Rightarrow> (r, state, p', s'))
            else
              (Inr \<lparr> content = [''Unknown tool: '' @ tool_name
                                 @ ''. Use xero_navigate to select a domain first.''],
                     isError = True \<rparr>,
               state, p, s)))"

text \<open>The \<open>catch\<close> clause: whatever was thrown becomes an error-flagged result.\<close>

definition caught :: "error + CallToolResult \<Rightarrow> CallToolResult" where
  "caught r = (case r of
                 Inl e \<Rightarrow> \<lparr> content = [''Error: '' @ message e], isError = True \<rparr>
               | Inr result \<Rightarrow> result)"

definition CallTool ::
  "(jsval \<Rightarrow> string) \<Rightarrow> 'srv fetch \<Rightarrow> string \<Rightarrow> args option
     \<Rightarrow> ServerState \<Rightarrow> process \<Rightarrow> 'srv
     \<Rightarrow> CallToolResult \<times> ServerState \<times> process \<times> 'srv" where
  "CallTool stringify fetch tool_name tool_args state p s =
     (case CallTool_try stringify fetch tool_name tool_args state p s of
        (r, state', p', s') \<Rightarrow> (caught r, state', p', s'))"

text \<open>
  The HTTP listener of \<open>startHttpTransport\<close>. A request is its path and its headers
  (Node gives the header names in lower case). The listener either answers itself, with
  a status and the value it serialises as the body, or hands the request to the protocol
  transport. \<open>now\<close> is the time stamp of the health answer.
\<close>

record IncomingMessage =
  pathname :: string
  req_headers :: "string \<rightharpoonup> string"

datatype listener_outcome =
    Answered nat jsval
  | HandleRequest

text \<open>The body of the 401 answer.\<close>

definition missing_credentials :: jsval where
  "missing_credentials =
     Obj [(''error'', Str ''Missing credentials''),
          (''message'', Str ''Gateway mode requires X-Xero-Access-Token and X-Xero-Tenant-Id headers''),
          (''required'', Arr [Str ''X-Xero-Access-Token'', Str ''X-Xero-Tenant-Id''])]"

text \<open>
  \<open>isGatewayMode\<close> is computed once, when the transport starts, from \<open>AUTH_MODE\<close>; the
  listener takes it as \<open>gateway\<close>.
\<close>

definition isGatewayMode :: "(string \<rightharpoonup> string) \<Rightarrow> bool" where
  "isGatewayMode e =
     ((case e ''AUTH_MODE'' of None \<Rightarrow> ''env'' | Some m \<Rightarrow> if m = [] then ''env'' else m) = ''gateway'')"

definition requestListener ::
  "bool \<Rightarrow> string \<Rightarrow> IncomingMessage \<Rightarrow> process \<Rightarrow> listener_outcome \<times> process" where
  "requestListener gateway now req p =
     (if pathname req = ''/health'' then
        (Answered 200
           (Obj [(''status'', Str ''ok''),
                 (''transport'', Str ''http''),
                 (''authMode'', Str (if gateway then ''gateway'' else ''env'')),
                 (''timestamp'', Str now)]), p)
      else if pathname req = ''/mcp'' then
        (if gateway then
           (let token = req_headers req ''x-xero-access-token'';
                tenant = req_headers req ''x-xero-tenant-id''
            in if absent token \<or> absent tenant then
                 (Answered 401 missing_credentials, p)
               else
                 (let p1 = resetClient p;
                      p2 = p1\<lparr> env := (env p1)(''XERO_ACCESS_TOKEN'' \<mapsto> the token) \<rparr>;
                      p3 = p2\<lparr> env := (env p2)(''XERO_TENANT_ID'' \<mapsto> the tenant) \<rparr>
                  in (HandleRequest, p3)))
         else (HandleRequest, p))
      else
        (Answered 404
           (Obj [(''error'', Str ''Not found''),
                 (''endpoints'', Arr [Str ''/mcp'', Str ''/health''])]), p))"

section \<open>Test doubles\<close>

text \<open>
  A transport that answers from a script, one response for each request, and keeps the
  requests it was sent; once the script is used up, \<open>fetch\<close> rejects.
\<close>

definition scripted :: "(fetch_result list \<times> http_request list) fetch" where
  "scripted req s =
     (case fst s of
        [] \<Rightarrow> (Rejected (FetchError ''fetch failed''), ([], snd s @ [req]))
      | r # rs \<Rightarrow> (r, (rs, snd s @ [req])))"

definition example_stringify :: "jsval \<Rightarrow> string" where
  "example_stringify v = (if v = Null then ''null'' else ''{}'')"

definition no_credentials :: process where
  "no_credentials = \<lparr> client_instance = None, env = Map.empty \<rparr>"

definition example_client :: XeroClient where
  "example_client = \<lparr> config = \<lparr> accessToken = ''token-0'', tenantId = ''tenant-0'' \<rparr> \<rparr>"

definition with_client :: process where
  "with_client = \<lparr> client_instance = Some example_client, env = Map.empty \<rparr>"

definition ok_response :: "jsval \<Rightarrow> fetch_result" where
  "ok_response v = Response \<lparr> status = 200, body_text = [], body_json = Inr v \<rparr>"

section \<open>Notions used in the statements\<close>

text \<open>
  Two requests to the protocol path: one whose token header is there but empty, one with
  both headers filled.
\<close>

definition empty_token_request :: IncomingMessage where
  "empty_token_request =
     \<lparr> pathname = ''/mcp'',
       req_headers = [''x-xero-access-token'' \<mapsto> [], ''x-xero-tenant-id'' \<mapsto> ''tenant-1''] \<rparr>"

definition both_headers_request :: IncomingMessage where
  "both_headers_request =
     \<lparr> pathname = ''/mcp'',
       req_headers = [''x-xero-access-token'' \<mapsto> ''token-1'', ''x-xero-tenant-id'' \<mapsto> ''tenant-1''] \<rparr>"

text \<open>
  The navigation state holds \<open>null\<close> or one of the five domains; a \<open>xero_navigate\<close> call
  whose \<open>domain\<close> argument is one of the five (a call with no arguments at all throws
  before it assigns); and a sequence of tool calls, one after the other.
\<close>

definition in_enumerated_set :: "ServerState \<Rightarrow> bool" where
  "in_enumerated_set state =
     (currentDomain state = Null \<or> switch_Domain (currentDomain state) \<noteq> None)"

definition navigate_argument_in_enum :: "string \<Rightarrow> args option \<Rightarrow> bool" where
  "navigate_argument_in_enum tool_name tool_args =
     (tool_name = ''xero_navigate'' \<longrightarrow>
        (case tool_args of
           None \<Rightarrow> True
         | Some a \<Rightarrow> switch_Domain (arg a ''domain'') \<noteq> None))"

fun CallTool_sequence ::
  "(jsval \<Rightarrow> string) \<Rightarrow> 'srv fetch \<Rightarrow> (string \<times> args option) list
     \<Rightarrow> ServerState \<Rightarrow> process \<Rightarrow> 'srv \<Rightarrow> ServerState \<times> process \<times> 'srv" where
  "CallTool_sequence stringify fetch [] state p s = (state, p, s)"
| "CallTool_sequence stringify fetch (c # cs) state p s =
     (case CallTool stringify fetch (fst c) (snd c) state p s of
        (r, state', p', s') \<Rightarrow> CallTool_sequence stringify fetch cs state' p' s')"

text \<open>
  The state of the transport after the requests for pages 1 to \<open>n\<close> have been issued in
  that order, each a \<open>get\<close> of the path with the caller's parameters and that page
  number; and what the \<open>k\<close>-th of them returns.
\<close>

fun after_pages ::
  "'srv fetch \<Rightarrow> XeroClient \<Rightarrow> string \<Rightarrow> (string \<times> string) list option \<Rightarrow> nat \<Rightarrow> 'srv \<Rightarrow> 'srv" where
  "after_pages fetch this path params 0 s = s"
| "after_pages fetch this path params (Suc n) s =
     snd (get fetch this path (Some (page_params params (Suc n)))
            (after_pages fetch this path params n s))"

definition page_response ::
  "'srv fetch \<Rightarrow> XeroClient \<Rightarrow> string \<Rightarrow> (string \<times> string) list option \<Rightarrow> nat \<Rightarrow> 'srv
     \<Rightarrow> error + jsval" where
  "page_response fetch this path params k s =
     fst (get fetch this path (Some (page_params params k))
            (after_pages fetch this path params (k - 1) s))"

text \<open>Pages of numbered items, in the envelope the remote API uses.\<close>

definition numbered :: "nat \<Rightarrow> nat \<Rightarrow> jsval list" where
  "numbered i n = map (\<lambda>k. Num (int k)) [i..<i + n]"

definition invoices_page :: "jsval list \<Rightarrow> fetch_result" where
  "invoices_page xs = ok_response (Obj [(''Id'', Str ''b2c0''), (''Status'', Str ''OK''), (''Invoices'', Arr xs)])"

text \<open>
  The request for one page of invoices, as it goes out for \<open>example_client\<close> when the
  caller gives no parameters of its own.
\<close>

definition page_request :: "string \<Rightarrow> http_request" where
  "page_request k =
     \<lparr> http_method = ''GET'',
       url = ''https://api.xero.com/api.xro/2.0/Invoices'',
       query = [(''page'', k)],
       headers =
         [(''Authorization'', ''Bearer token-0''),
          (''xero-tenant-id'', ''tenant-0''),
          (''Content-Type'', ''application/json''),
          (''Accept'', ''application/json'')],
       body = None \<rparr>"

section \<open>Tool listing and dispatch\<close>

lemma switch_Domain_literal: "switch_Domain (Str (domain_literal d)) = Some d"
  by (cases d) (simp_all add: switch_Domain_def)

lemma tool_names_distinct:
  "distinct (map name (contactTools @ invoiceTools @ paymentTools @ accountTools @ reportTools
                       @ [navigateTool, backTool]))"
  by (simp add: contactTools_def invoiceTools_def paymentTools_def accountTools_def
      reportTools_def navigateTool_def backTool_def)

lemma domain_tools_disjoint:
  "d \<noteq> d' \<Longrightarrow> set (getDomainTools d) \<inter> set (getDomainTools d') = {}"
  by (cases d; cases d')
     (simp_all add: contactTools_def invoiceTools_def paymentTools_def accountTools_def
        reportTools_def)

lemma navigation_tools_not_domain_tools:
  "navigateTool \<notin> set (getDomainTools d) \<and> backTool \<notin> set (getDomainTools d)"
  by (cases d)
     (simp_all add: contactTools_def invoiceTools_def paymentTools_def accountTools_def
        reportTools_def navigateTool_def backTool_def)

lemma domain_tools_prefix:
  "t \<in> set (getDomainTools d) \<Longrightarrow> startsWith (name t) (''xero_'' @ domain_literal d @ ''_'')"
  by (cases d)
     (auto simp: contactTools_def invoiceTools_def paymentTools_def accountTools_def
        reportTools_def startsWith_def)

lemma domain_tools_other_prefix:
  "d \<noteq> d' \<Longrightarrow> t \<in> set (getDomainTools d')
   \<Longrightarrow> \<not> startsWith (name t) (''xero_'' @ domain_literal d @ ''_'')"
  by (cases d; cases d')
     (auto simp: contactTools_def invoiceTools_def paymentTools_def accountTools_def
        reportTools_def startsWith_def)

text \<open>
  C3. Listing is a function of the navigation state alone. With no domain selected it
  gives the navigate tool and nothing else. With a domain selected it gives the back
  tool followed by the tools registered for that domain, which are, domain by domain,
  the ones written out here. Every tool of a domain carries the prefix of that domain
  and no tool of another domain does; so none of the tools listed belongs to another
  domain, and the navigate tool is not among them.
\<close>

theorem ListTools_projection:
  "ListTools \<lparr> currentDomain = Null \<rparr> = Inr [\<lparr> name = ''xero_navigate'' \<rparr>]
   \<and> ListTools \<lparr> currentDomain = Str ''contacts'' \<rparr>
       = Inr [\<lparr> name = ''xero_back'' \<rparr>, \<lparr> name = ''xero_contacts_list'' \<rparr>,
              \<lparr> name = ''xero_contacts_get'' \<rparr>, \<lparr> name = ''xero_contacts_create'' \<rparr>,
              \<lparr> name = ''xero_contacts_search'' \<rparr>]
   \<and> ListTools \<lparr> currentDomain = Str ''invoices'' \<rparr>
       = Inr [\<lparr> name = ''xero_back'' \<rparr>, \<lparr> name = ''xero_invoices_list'' \<rparr>,
              \<lparr> name = ''xero_invoices_get'' \<rparr>, \<lparr> name = ''xero_invoices_create'' \<rparr>,
              \<lparr> name = ''xero_invoices_update_status'' \<rparr>]
   \<and> ListTools \<lparr> currentDomain = Str ''payments'' \<rparr>
       = Inr [\<lparr> name = ''xero_back'' \<rparr>, \<lparr> name = ''xero_payments_list'' \<rparr>,
              \<lparr> name = ''xero_payments_get'' \<rparr>, \<lparr> name = ''xero_payments_create'' \<rparr>]
   \<and> ListTools \<lparr> currentDomain = Str ''accounts'' \<rparr>
       = Inr [\<lparr> name = ''xero_back'' \<rparr>, \<lparr> name = ''xero_accounts_list'' \<rparr>,
              \<lparr> name = ''xero_accounts_get'' \<rparr>]
   \<and> ListTools \<lparr> currentDomain = Str ''reports'' \<rparr>
       = Inr [\<lparr> name = ''xero_back'' \<rparr>, \<lparr> name = ''xero_reports_profit_and_loss'' \<rparr>,
              \<lparr> name = ''xero_reports_balance_sheet'' \<rparr>,
              \<lparr> name = ''xero_reports_aged_receivables'' \<rparr>,
              \<lparr> name = ''xero_reports_aged_payables'' \<rparr>]
   \<and> (\<forall>d. ListTools \<lparr> currentDomain = Str (domain_literal d) \<rparr> = Inr (backTool # getDomainTools d))
   \<and> (\<forall>d. \<forall>t\<in>set (getDomainTools d). startsWith (name t) (''xero_'' @ domain_literal d @ ''_''))
   \<and> (\<forall>d d'. d \<noteq> d' \<longrightarrow>
         (\<forall>t\<in>set (getDomainTools d'). \<not> startsWith (name t) (''xero_'' @ domain_literal d @ ''_'')))
   \<and> (\<forall>d d'. d \<noteq> d' \<longrightarrow> set (backTool # getDomainTools d) \<inter> set (getDomainTools d') = {})
   \<and> (\<forall>d. navigateTool \<notin> set (backTool # getDomainTools d))"
proof -
  have root: "ListTools \<lparr> currentDomain = Null \<rparr> = Inr [\<lparr> name = ''xero_navigate'' \<rparr>]"
    by (simp add: ListTools_def navigateTool_def)
  have contacts: "ListTools \<lparr> currentDomain = Str ''contacts'' \<rparr>
       = Inr [\<lparr> name = ''xero_back'' \<rparr>, \<lparr> name = ''xero_contacts_list'' \<rparr>,
              \<lparr> name = ''xero_contacts_get'' \<rparr>, \<lparr> name = ''xero_contacts_create'' \<rparr>,
              \<lparr> name = ''xero_contacts_search'' \<rparr>]"
    by (simp add: ListTools_def switch_Domain_def contactTools_def backTool_def)
  have invoices: "ListTools \<lparr> currentDomain = Str ''invoices'' \<rparr>
       = Inr [\<lparr> name = ''xero_back'' \<rparr>, \<lparr> name = ''xero_invoices_list'' \<rparr>,
              \<lparr> name = ''xero_invoices_get'' \<rparr>, \<lparr> name = ''xero_invoices_create'' \<rparr>,
              \<lparr> name = ''xero_invoices_update_status'' \<rparr>]"
    by (simp add: ListTools_def switch_Domain_def invoiceTools_def backTool_def)
  have payments: "ListTools \<lparr> currentDomain = Str ''payments'' \<rparr>
       = Inr [\<lparr> name = ''xero_back'' \<rparr>, \<lparr> name = ''xero_payments_list'' \<rparr>,
              \<lparr> name = ''xero_payments_get'' \<rparr>, \<lparr> name = ''xero_payments_create'' \<rparr>]"
    by (simp add: ListTools_def switch_Domain_def paymentTools_def backTool_def)
  have accounts: "ListTools \<lparr> currentDomain = Str ''accounts'' \<rparr>
       = Inr [\<lparr> name = ''xero_back'' \<rparr>, \<lparr> name = ''xero_accounts_list'' \<rparr>,
              \<lparr> name = ''xero_accounts_get'' \<rparr>]"
    by (simp add: ListTools_def switch_Domain_def accountTools_def backTool_def)
  have reports: "ListTools \<lparr> currentDomain = Str ''reports'' \<rparr>
       = Inr [\<lparr> name = ''xero_back'' \<rparr>, \<lparr> name = ''xero_reports_profit_and_loss'' \<rparr>,
              \<lparr> name = ''xero_reports_balance_sheet'' \<rparr>,
              \<lparr> name = ''xero_reports_aged_receivables'' \<rparr>,
              \<lparr> name = ''xero_reports_aged_payables'' \<rparr>]"
    by (simp add: ListTools_def switch_Domain_def reportTools_def backTool_def)
  have dom: "ListTools \<lparr> currentDomain = Str (domain_literal d) \<rparr> = Inr (backTool # getDomainTools d)" for d
    by (simp add: ListTools_def switch_Domain_literal)
  have own: "\<forall>t\<in>set (getDomainTools d). startsWith (name t) (''xero_'' @ domain_literal d @ ''_'')" for d
    using domain_tools_prefix by blast
  have foreign: "\<forall>t\<in>set (getDomainTools d'). \<not> startsWith (name t) (''xero_'' @ domain_literal d @ ''_'')"
    if "d \<noteq> d'" for d d'
    using domain_tools_other_prefix [OF that] by blast
  have other: "set (backTool # getDomainTools d) \<inter> set (getDomainTools d') = {}" if "d \<noteq> d'" for d d'
    using domain_tools_disjoint [OF that] navigation_tools_not_domain_tools [of d'] by auto
  have nav: "navigateTool \<notin> set (backTool # getDomainTools d)" for d
    using navigation_tools_not_domain_tools [of d] by (simp add: navigateTool_def backTool_def)
  from root contacts invoices payments accounts reports dom own foreign other nav
  show ?thesis by blast
qed

theorem ListTools_projection_witness:
  "Contacts \<noteq> Invoices
   \<and> \<lparr> name = ''xero_invoices_get'' \<rparr> \<in> set (getDomainTools Invoices)
   \<and> startsWith ''xero_invoices_get'' ''xero_invoices_''
   \<and> \<not> startsWith ''xero_invoices_get'' ''xero_contacts_''
   \<and> set (backTool # getDomainTools Contacts) \<inter> set (getDomainTools Invoices) = {}
   \<and> ListTools \<lparr> currentDomain = Str ''contacts'' \<rparr>
       = Inr [\<lparr> name = ''xero_back'' \<rparr>, \<lparr> name = ''xero_contacts_list'' \<rparr>,
              \<lparr> name = ''xero_contacts_get'' \<rparr>, \<lparr> name = ''xero_contacts_create'' \<rparr>,
              \<lparr> name = ''xero_contacts_search'' \<rparr>]"
proof -
  have ne: "Contacts \<noteq> Invoices" by simp
  have mem: "\<lparr> name = ''xero_invoices_get'' \<rparr> \<in> set (getDomainTools Invoices)"
    by (simp add: invoiceTools_def)
  from ListTools_projection
  have own: "\<forall>t\<in>set (getDomainTools Invoices).
               startsWith (name t) (''xero_'' @ domain_literal Invoices @ ''_'')"
    and foreign: "Contacts \<noteq> Invoices \<longrightarrow>
               (\<forall>t\<in>set (getDomainTools Invoices).
                  \<not> startsWith (name t) (''xero_'' @ domain_literal Contacts @ ''_''))"
    and other: "Contacts \<noteq> Invoices \<longrightarrow>
              set (backTool # getDomainTools Contacts) \<inter> set (getDomainTools Invoices) = {}"
    and listing: "ListTools \<lparr> currentDomain = Str ''contacts'' \<rparr>
       = Inr [\<lparr> name = ''xero_back'' \<rparr>, \<lparr> name = ''xero_contacts_list'' \<rparr>,
              \<lparr> name = ''xero_contacts_get'' \<rparr>, \<lparr> name = ''xero_contacts_create'' \<rparr>,
              \<lparr> name = ''xero_contacts_search'' \<rparr>]"
    by blast+
  from own mem have a: "startsWith ''xero_invoices_get'' ''xero_invoices_''"
    by fastforce
  from foreign ne mem have b: "\<not> startsWith ''xero_invoices_get'' ''xero_contacts_''"
    by fastforce
  from ne mem a b other listing show ?thesis by blast
qed

lemma startsWith_length: "startsWith s p \<Longrightarrow> take (length p) s = p"
  by (simp add: startsWith_def)

text \<open>
  C7. A tool identifier that is neither \<open>xero_navigate\<close> nor \<open>xero_back\<close> and starts with
  none of the five domain prefixes: the \<open>try\<close> block returns normally, with the
  unknown-tool result, flagged as an error; nothing is thrown, and nothing changes.
\<close>

theorem unknown_tool_is_error_result:
  assumes "tool_name \<noteq> ''xero_navigate''" and "tool_name \<noteq> ''xero_back''"
    and "\<not> startsWith tool_name ''xero_contacts_''"
    and "\<not> startsWith tool_name ''xero_invoices_''"
    and "\<not> startsWith tool_name ''xero_payments_''"
    and "\<not> startsWith tool_name ''xero_accounts_''"
    and "\<not> startsWith tool_name ''xero_reports_''"
  shows "CallTool_try stringify fetch tool_name tool_args state p s
           = (Inr \<lparr> content = [''Unknown tool: '' @ tool_name
                                @ ''. Use xero_navigate to select a domain first.''],
                    isError = True \<rparr>, state, p, s)
         \<and> CallTool stringify fetch tool_name tool_args state p s
           = (\<lparr> content = [''Unknown tool: '' @ tool_name
                            @ ''. Use xero_navigate to select a domain first.''],
                isError = True \<rparr>, state, p, s)"
  using assms by (simp add: CallTool_def CallTool_try_def caught_def)

text \<open>
  C8. A call of any tool other than the two navigation tools, whatever its arguments,
  whatever the transport answers and whether the handler returns or throws, leaves the
  navigation state as it was.
\<close>

theorem domain_dispatch_keeps_state:
  assumes "tool_name \<noteq> ''xero_navigate''" and "tool_name \<noteq> ''xero_back''"
  shows "fst (snd (CallTool stringify fetch tool_name tool_args state p s)) = state"
  using assms by (simp add: CallTool_def CallTool_try_def Let_def split: prod.splits)

theorem unknown_tool_is_error_result_witness:
  "''frobnicate'' \<noteq> ''xero_navigate'' \<and> ''frobnicate'' \<noteq> ''xero_back''
   \<and> \<not> startsWith ''frobnicate'' ''xero_contacts_''
   \<and> CallTool example_stringify scripted ''frobnicate'' None
        \<lparr> currentDomain = Str ''invoices'' \<rparr> no_credentials ([], [])
      = (\<lparr> content = [''Unknown tool: frobnicate. Use xero_navigate to select a domain first.''],
           isError = True \<rparr>, \<lparr> currentDomain = Str ''invoices'' \<rparr>, no_credentials, ([], []))"
proof -
  have h: "''frobnicate'' \<noteq> ''xero_navigate''" "''frobnicate'' \<noteq> ''xero_back''"
    "\<not> startsWith ''frobnicate'' ''xero_contacts_''"
    "\<not> startsWith ''frobnicate'' ''xero_invoices_''"
    "\<not> startsWith ''frobnicate'' ''xero_payments_''"
    "\<not> startsWith ''frobnicate'' ''xero_accounts_''"
    "\<not> startsWith ''frobnicate'' ''xero_reports_''"
    by (simp_all add: startsWith_def)
  from unknown_tool_is_error_result [OF h, where stringify = example_stringify and fetch = scripted and tool_args = None
      and state = "\<lparr> currentDomain = Str ''invoices'' \<rparr>" and p = no_credentials
      and s = "([], [])"] h
  show ?thesis by simp
qed

theorem domain_dispatch_keeps_state_witness:
  "''xero_contacts_list'' \<noteq> ''xero_navigate'' \<and> ''xero_contacts_list'' \<noteq> ''xero_back''
   \<and> fst (CallTool example_stringify scripted ''xero_contacts_list'' None
             \<lparr> currentDomain = Str ''invoices'' \<rparr> no_credentials ([], []))
       = \<lparr> content = [''Error: XERO_ACCESS_TOKEN and XERO_TENANT_ID environment variables are required. In gateway mode, these are set from request headers automatically.''], isError = True \<rparr>
   \<and> fst (snd (CallTool example_stringify scripted ''xero_contacts_list'' None
             \<lparr> currentDomain = Str ''invoices'' \<rparr> no_credentials ([], [])))
       = \<lparr> currentDomain = Str ''invoices'' \<rparr>"
proof -
  have h: "''xero_contacts_list'' \<noteq> ''xero_navigate''" "''xero_contacts_list'' \<noteq> ''xero_back''"
    by simp_all
  have r: "fst (CallTool example_stringify scripted ''xero_contacts_list'' None
             \<lparr> currentDomain = Str ''invoices'' \<rparr> no_credentials ([], []))
       = \<lparr> content = [''Error: XERO_ACCESS_TOKEN and XERO_TENANT_ID environment variables are required. In gateway mode, these are set from request headers automatically.''], isError = True \<rparr>"
    by (simp add: CallTool_def CallTool_try_def startsWith_def handleContactTool_def
        getClient_def no_credentials_def caught_def)
  from domain_dispatch_keeps_state [OF h, where stringify = example_stringify and fetch = scripted and tool_args = None
      and state = "\<lparr> currentDomain = Str ''invoices'' \<rparr>" and p = no_credentials
      and s = "([], [])"] h r
  show ?thesis by simp
qed

lemma navigation_names_have_no_prefix:
  "\<not> startsWith ''xero_navigate'' ''xero_contacts_''" "\<not> startsWith ''xero_navigate'' ''xero_invoices_''"
  "\<not> startsWith ''xero_navigate'' ''xero_payments_''" "\<not> startsWith ''xero_navigate'' ''xero_accounts_''"
  "\<not> startsWith ''xero_navigate'' ''xero_reports_''"
  "\<not> startsWith ''xero_back'' ''xero_contacts_''" "\<not> startsWith ''xero_back'' ''xero_invoices_''"
  "\<not> startsWith ''xero_back'' ''xero_payments_''" "\<not> startsWith ''xero_back'' ''xero_accounts_''"
  "\<not> startsWith ''xero_back'' ''xero_reports_''"
  by (simp_all add: startsWith_def)

lemma startsWith_shorter:
  "startsWith n p \<Longrightarrow> k \<le> length p \<Longrightarrow> take k n = take k p"
proof -
  assume a: "startsWith n p" and k: "k \<le> length p"
  from k have "take k (take (length p) n) = take k n" by (simp add: min_def)
  moreover from a have "take (length p) n = p" by (simp add: startsWith_def)
  ultimately show ?thesis by simp
qed

lemma prefixes_exclusive:
  assumes "startsWith n p" and "take 6 p \<noteq> take 6 q" and "6 \<le> length p" and "6 \<le> length q"
  shows "\<not> startsWith n q"
proof
  assume q: "startsWith n q"
  from startsWith_shorter [OF assms(1) assms(3)] startsWith_shorter [OF q assms(4)] assms(2)
  show False by simp
qed

lemma not_navigation:
  assumes "startsWith n p" and "\<not> startsWith ''xero_navigate'' p" and "\<not> startsWith ''xero_back'' p"
  shows "n \<noteq> ''xero_navigate'' \<and> n \<noteq> ''xero_back''"
  using assms by auto

lemma contacts_prefix:
  assumes "startsWith n ''xero_contacts_''"
  shows "n \<noteq> ''xero_navigate'' \<and> n \<noteq> ''xero_back''"
  by (rule not_navigation [OF assms]) (simp_all add: startsWith_def)

lemma invoices_prefix:
  assumes "startsWith n ''xero_invoices_''"
  shows "n \<noteq> ''xero_navigate'' \<and> n \<noteq> ''xero_back''" and "\<not> startsWith n ''xero_contacts_''"
proof -
  show "n \<noteq> ''xero_navigate'' \<and> n \<noteq> ''xero_back''"
    by (rule not_navigation [OF assms]) (simp_all add: startsWith_def)
  show "\<not> startsWith n ''xero_contacts_''"
    by (rule prefixes_exclusive [OF assms]) simp_all
qed

lemma payments_prefix:
  assumes "startsWith n ''xero_payments_''"
  shows "n \<noteq> ''xero_navigate'' \<and> n \<noteq> ''xero_back''" and "\<not> startsWith n ''xero_contacts_''"
    and "\<not> startsWith n ''xero_invoices_''"
proof -
  show "n \<noteq> ''xero_navigate'' \<and> n \<noteq> ''xero_back''"
    by (rule not_navigation [OF assms]) (simp_all add: startsWith_def)
  show "\<not> startsWith n ''xero_contacts_''"
    by (rule prefixes_exclusive [OF assms]) simp_all
  show "\<not> startsWith n ''xero_invoices_''"
    by (rule prefixes_exclusive [OF assms]) simp_all
qed

lemma accounts_prefix:
  assumes "startsWith n ''xero_accounts_''"
  shows "n \<noteq> ''xero_navigate'' \<and> n \<noteq> ''xero_back''" and "\<not> startsWith n ''xero_contacts_''"
    and "\<not> startsWith n ''xero_invoices_''" and "\<not> startsWith n ''xero_payments_''"
proof -
  show "n \<noteq> ''xero_navigate'' \<and> n \<noteq> ''xero_back''"
    by (rule not_navigation [OF assms]) (simp_all add: startsWith_def)
  show "\<not> startsWith n ''xero_contacts_''"
    by (rule prefixes_exclusive [OF assms]) simp_all
  show "\<not> startsWith n ''xero_invoices_''"
    by (rule prefixes_exclusive [OF assms]) simp_all
  show "\<not> startsWith n ''xero_payments_''"
    by (rule prefixes_exclusive [OF assms]) simp_all
qed

lemma reports_prefix:
  assumes "startsWith n ''xero_reports_''"
  shows "n \<noteq> ''xero_navigate'' \<and> n \<noteq> ''xero_back''" and "\<not> startsWith n ''xero_contacts_''"
    and "\<not> startsWith n ''xero_invoices_''" and "\<not> startsWith n ''xero_payments_''"
    and "\<not> startsWith n ''xero_accounts_''"
proof -
  show "n \<noteq> ''xero_navigate'' \<and> n \<noteq> ''xero_back''"
    by (rule not_navigation [OF assms]) (simp_all add: startsWith_def)
  show "\<not> startsWith n ''xero_contacts_''"
    by (rule prefixes_exclusive [OF assms]) simp_all
  show "\<not> startsWith n ''xero_invoices_''"
    by (rule prefixes_exclusive [OF assms]) simp_all
  show "\<not> startsWith n ''xero_payments_''"
    by (rule prefixes_exclusive [OF assms]) simp_all
  show "\<not> startsWith n ''xero_accounts_''"
    by (rule prefixes_exclusive [OF assms]) simp_all
qed

text \<open>
  C10. Dispatch does not read the navigation state. A tool identifier that starts with
  a domain prefix goes to the handler of that domain, whatever the state is, and the
  state comes back as it was; the result is what the handler returned, or the
  error-flagged result made of what it threw. So the selection of a domain restricts
  what is listed, not what can be called.
\<close>

theorem dispatch_ignores_state:
  "(startsWith n ''xero_contacts_'' \<longrightarrow>
      CallTool stringify fetch n tool_args state p s
        = (case handleContactTool stringify fetch n (case tool_args of None \<Rightarrow> [] | Some a \<Rightarrow> a) p s of
             (r, p', s') \<Rightarrow> (caught r, state, p', s')))
   \<and> (startsWith n ''xero_invoices_'' \<longrightarrow>
      CallTool stringify fetch n tool_args state p s
        = (case handleInvoiceTool stringify fetch n (case tool_args of None \<Rightarrow> [] | Some a \<Rightarrow> a) p s of
             (r, p', s') \<Rightarrow> (caught r, state, p', s')))
   \<and> (startsWith n ''xero_payments_'' \<longrightarrow>
      CallTool stringify fetch n tool_args state p s
        = (case handlePaymentTool stringify fetch n (case tool_args of None \<Rightarrow> [] | Some a \<Rightarrow> a) p s of
             (r, p', s') \<Rightarrow> (caught r, state, p', s')))
   \<and> (startsWith n ''xero_accounts_'' \<longrightarrow>
      CallTool stringify fetch n tool_args state p s
        = (case handleAccountTool stringify fetch n (case tool_args of None \<Rightarrow> [] | Some a \<Rightarrow> a) p s of
             (r, p', s') \<Rightarrow> (caught r, state, p', s')))
   \<and> (startsWith n ''xero_reports_'' \<longrightarrow>
      CallTool stringify fetch n tool_args state p s
        = (case handleReportTool stringify fetch n (case tool_args of None \<Rightarrow> [] | Some a \<Rightarrow> a) p s of
             (r, p', s') \<Rightarrow> (caught r, state, p', s')))"
proof -
  have c: "CallTool stringify fetch n tool_args state p s
        = (case handleContactTool stringify fetch n (case tool_args of None \<Rightarrow> [] | Some a \<Rightarrow> a) p s of
             (r, p', s') \<Rightarrow> (caught r, state, p', s'))" if "startsWith n ''xero_contacts_''"
    using that contacts_prefix [OF that]
    by (simp add: CallTool_def CallTool_try_def split: prod.splits)
  have i: "CallTool stringify fetch n tool_args state p s
        = (case handleInvoiceTool stringify fetch n (case tool_args of None \<Rightarrow> [] | Some a \<Rightarrow> a) p s of
             (r, p', s') \<Rightarrow> (caught r, state, p', s'))" if "startsWith n ''xero_invoices_''"
    using that invoices_prefix [OF that]
    by (simp add: CallTool_def CallTool_try_def split: prod.splits)
  have pa: "CallTool stringify fetch n tool_args state p s
        = (case handlePaymentTool stringify fetch n (case tool_args of None \<Rightarrow> [] | Some a \<Rightarrow> a) p s of
             (r, p', s') \<Rightarrow> (caught r, state, p', s'))" if "startsWith n ''xero_payments_''"
    using that payments_prefix [OF that]
    by (simp add: CallTool_def CallTool_try_def split: prod.splits)
  have a: "CallTool stringify fetch n tool_args state p s
        = (case handleAccountTool stringify fetch n (case tool_args of None \<Rightarrow> [] | Some a \<Rightarrow> a) p s of
             (r, p', s') \<Rightarrow> (caught r, state, p', s'))" if "startsWith n ''xero_accounts_''"
    using that accounts_prefix [OF that]
    by (simp add: CallTool_def CallTool_try_def split: prod.splits)
  have r: "CallTool stringify fetch n tool_args state p s
        = (case handleReportTool stringify fetch n (case tool_args of None \<Rightarrow> [] | Some a \<Rightarrow> a) p s of
             (r, p', s') \<Rightarrow> (caught r, state, p', s'))" if "startsWith n ''xero_reports_''"
    using that reports_prefix [OF that]
    by (simp add: CallTool_def CallTool_try_def split: prod.splits)
  from c i pa a r show ?thesis by blast
qed

theorem dispatch_ignores_state_witness:
  "startsWith ''xero_invoices_get'' ''xero_invoices_''
   \<and> ListTools initial_state = Inr [navigateTool]
   \<and> CallTool example_stringify scripted ''xero_invoices_get'' (Some [(''invoiceId'', Str ''inv-1'')])
        initial_state with_client ([ok_response (Obj [])], [])
      = (\<lparr> content = [''{}''], isError = False \<rparr>, initial_state, with_client,
         ([], [http_request_of example_client ''GET'' ''Invoices/inv-1'' None Undefined]))"
proof -
  have h: "startsWith ''xero_invoices_get'' ''xero_invoices_''"
    by (simp add: startsWith_def)
  have l: "ListTools initial_state = Inr [navigateTool]"
    by (simp add: ListTools_def initial_state_def)
  have r: "handleInvoiceTool example_stringify scripted ''xero_invoices_get''
             [(''invoiceId'', Str ''inv-1'')] with_client ([ok_response (Obj [])], [])
           = (Inr \<lparr> content = [''{}''], isError = False \<rparr>, with_client,
              ([], [http_request_of example_client ''GET'' ''Invoices/inv-1'' None Undefined]))"
    by (simp add: handleInvoiceTool_def getClient_def with_client_def text_result_def arg_def
        get_def request_def scripted_def ok_response_def ok_def example_stringify_def)
  from dispatch_ignores_state [where n = "''xero_invoices_get''"
      and stringify = example_stringify and fetch = scripted
      and tool_args = "Some [(''invoiceId'', Str ''inv-1'')]"
      and state = initial_state and p = with_client and s = "([ok_response (Obj [])], [])"] h
  have "CallTool example_stringify scripted ''xero_invoices_get'' (Some [(''invoiceId'', Str ''inv-1'')])
        initial_state with_client ([ok_response (Obj [])], [])
      = (case handleInvoiceTool example_stringify scripted ''xero_invoices_get''
               [(''invoiceId'', Str ''inv-1'')] with_client ([ok_response (Obj [])], []) of
           (r, p', s') \<Rightarrow> (caught r, initial_state, p', s'))"
    by simp
  with r h l show ?thesis by (simp add: caught_def)
qed


section \<open>The client\<close>

text \<open>
  C9, amended. When the remote answers with status 204, \<open>request\<close> returns \<open>null\<close>: not
  an error, and not an empty object, array or string. The body is not decoded. \<open>get\<close>,
  \<open>post\<close>, \<open>put\<close> and \<open>delete\<close> are \<open>request\<close> with their HTTP method, so the same holds
  for each of the four. (\<open>getPaginated\<close> is the operation for which it does not hold: see
  the section on pagination.)
\<close>

theorem no_content_yields_null:
  assumes "fetch (http_request_of this verb path params body_arg) s = (Response r, s')"
    and "status r = 204"
  shows "request fetch this verb path params body_arg s = (Inr Null, s')
         \<and> Null \<noteq> Obj [] \<and> Null \<noteq> Arr [] \<and> Null \<noteq> Str []
         \<and> get fetch this path params = request fetch this ''GET'' path params Undefined
         \<and> post fetch this path body_arg = request fetch this ''POST'' path None body_arg
         \<and> put fetch this path body_arg = request fetch this ''PUT'' path None body_arg
         \<and> delete fetch this path = request fetch this ''DELETE'' path None Undefined"
  using assms by (simp add: request_def ok_def get_def post_def put_def delete_def)

theorem no_content_yields_null_witness:
  "scripted (http_request_of example_client ''DELETE'' ''Invoices/1'' None Undefined)
       ([Response \<lparr> status = 204, body_text = [], body_json = Inl (SyntaxError ''Unexpected end of JSON input'') \<rparr>], [])
     = (Response \<lparr> status = 204, body_text = [], body_json = Inl (SyntaxError ''Unexpected end of JSON input'') \<rparr>,
        ([], [http_request_of example_client ''DELETE'' ''Invoices/1'' None Undefined]))
   \<and> delete scripted example_client ''Invoices/1''
       ([Response \<lparr> status = 204, body_text = [], body_json = Inl (SyntaxError ''Unexpected end of JSON input'') \<rparr>], [])
     = (Inr Null, ([], [http_request_of example_client ''DELETE'' ''Invoices/1'' None Undefined]))"
proof -
  let ?r = "\<lparr> status = 204, body_text = [], body_json = Inl (SyntaxError ''Unexpected end of JSON input'') \<rparr>"
  let ?q = "http_request_of example_client ''DELETE'' ''Invoices/1'' None Undefined"
  have f: "scripted ?q ([Response ?r], []) = (Response ?r, ([], [?q]))"
    by (simp add: scripted_def)
  have st: "status ?r = 204" by simp
  from no_content_yields_null [where fetch = scripted and this = example_client
      and verb = "''DELETE''" and path = "''Invoices/1''" and params = None
      and body_arg = Undefined, OF f st] f
  show ?thesis by simp
qed

lemma switch_Domain_literal2: "switch_Domain v = Some d \<Longrightarrow> v = Str (domain_literal d)"
  by (auto simp: switch_Domain_def split: if_splits)

lemma CallTool_state:
  "fst (snd (CallTool stringify fetch n a state p s)) =
     (if n = ''xero_navigate'' then (case a of None \<Rightarrow> state | Some x \<Rightarrow> state\<lparr> currentDomain := arg x ''domain'' \<rparr>)
      else if n = ''xero_back'' then state\<lparr> currentDomain := Null \<rparr>
      else state)"
  by (simp add: CallTool_def CallTool_try_def Let_def split: prod.splits option.splits)

lemma CallTool_keeps_enumerated:
  assumes "in_enumerated_set state" and "navigate_argument_in_enum n a"
  shows "in_enumerated_set (fst (snd (CallTool stringify fetch n a state p s)))"
  using assms
  by (auto simp: CallTool_state in_enumerated_set_def navigate_argument_in_enum_def
      split: option.splits)

lemma CallTool_sequence_keeps_enumerated:
  "in_enumerated_set state \<Longrightarrow> list_all (\<lambda>c. navigate_argument_in_enum (fst c) (snd c)) calls
   \<Longrightarrow> in_enumerated_set (fst (CallTool_sequence stringify fetch calls state p s))"
proof (induction calls arbitrary: state p s)
  case Nil
  then show ?case by simp
next
  case (Cons c cs)
  obtain r state' p' s' where
    step: "CallTool stringify fetch (fst c) (snd c) state p s = (r, state', p', s')"
    by (metis prod_cases4)
  from Cons.prems have "navigate_argument_in_enum (fst c) (snd c)" by simp
  from CallTool_keeps_enumerated [OF Cons.prems(1) this, of stringify fetch p s] step
  have "in_enumerated_set state'" by simp
  moreover from Cons.prems have "list_all (\<lambda>c. navigate_argument_in_enum (fst c) (snd c)) cs" by simp
  ultimately have "in_enumerated_set (fst (CallTool_sequence stringify fetch cs state' p' s'))"
    by (rule Cons.IH)
  with step show ?case by simp
qed

text \<open>
  C4, as stated, fails: \<open>xero_navigate\<close> assigns its \<open>domain\<close> argument to the state before
  anything looks at it. With an argument outside the five domains the call ends in an
  error-flagged result, and the state holds the argument.
\<close>

theorem navigate_outside_enum_counterexample:
  "\<not> in_enumerated_set
        (fst (snd (CallTool example_stringify scripted ''xero_navigate''
                     (Some [(''domain'', Str ''payroll'')]) initial_state no_credentials ([], []))))
   \<and> CallTool example_stringify scripted ''xero_navigate''
        (Some [(''domain'', Str ''payroll'')]) initial_state no_credentials ([], [])
      = (\<lparr> content = [''Error: Cannot read properties of undefined (reading '' @ [CHR 0x27] @ ''map'' @ [CHR 0x27] @ '')''],
           isError = True \<rparr>,
         \<lparr> currentDomain = Str ''payroll'' \<rparr>, no_credentials, ([], []))"
  by (simp add: CallTool_def CallTool_try_def arg_def switch_Domain_def initial_state_def
      caught_def in_enumerated_set_def)

text \<open>
  C4, amended. \<open>xero_navigate\<close> with one of the five domains establishes that domain,
  \<open>xero_back\<close> establishes \<open>null\<close>, and after every sequence of tool calls in which each
  \<open>xero_navigate\<close> carries one of the five domains, a state that held \<open>null\<close> or one of
  the five domains (as the initial state does) still holds \<open>null\<close> or one of them.
\<close>

theorem navigation_state_in_enumerated_set:
  "(switch_Domain (arg a ''domain'') = Some d \<longrightarrow>
      fst (snd (CallTool stringify fetch ''xero_navigate'' (Some a) state p s))
        = state\<lparr> currentDomain := Str (domain_literal d) \<rparr>)
   \<and> fst (snd (CallTool stringify fetch ''xero_back'' tool_args state p s))
        = state\<lparr> currentDomain := Null \<rparr>
   \<and> (in_enumerated_set state
        \<and> list_all (\<lambda>c. navigate_argument_in_enum (fst c) (snd c)) calls
      \<longrightarrow> in_enumerated_set (fst (CallTool_sequence stringify fetch calls state p s)))
   \<and> in_enumerated_set initial_state"
  using CallTool_sequence_keeps_enumerated [of state calls stringify fetch p s]
  by (auto simp: CallTool_state in_enumerated_set_def initial_state_def
      dest: switch_Domain_literal2)

theorem navigation_state_in_enumerated_set_witness:
  "switch_Domain (arg [(''domain'', Str ''reports'')] ''domain'') = Some Reports
   \<and> in_enumerated_set initial_state
   \<and> list_all (\<lambda>c. navigate_argument_in_enum (fst c) (snd c))
        [(''xero_navigate'', Some [(''domain'', Str ''reports'')]),
         (''xero_reports_balance_sheet'', None),
         (''xero_back'', None),
         (''xero_navigate'', Some [(''domain'', Str ''invoices'')])]
   \<and> fst (CallTool_sequence example_stringify scripted
        [(''xero_navigate'', Some [(''domain'', Str ''reports'')]),
         (''xero_reports_balance_sheet'', None),
         (''xero_back'', None),
         (''xero_navigate'', Some [(''domain'', Str ''invoices'')])]
        initial_state no_credentials ([], []))
       = \<lparr> currentDomain = Str ''invoices'' \<rparr>
   \<and> in_enumerated_set \<lparr> currentDomain = Str ''invoices'' \<rparr>"
proof -
  let ?calls = "[(''xero_navigate'', Some [(''domain'', Str ''reports'')]),
         (''xero_reports_balance_sheet'', None),
         (''xero_back'', None),
         (''xero_navigate'', Some [(''domain'', Str ''invoices'')])]"
  have a: "switch_Domain (arg [(''domain'', Str ''reports'')] ''domain'') = Some Reports"
    by (simp add: arg_def switch_Domain_def)
  have i: "in_enumerated_set initial_state"
    by (simp add: in_enumerated_set_def initial_state_def)
  have l: "list_all (\<lambda>c. navigate_argument_in_enum (fst c) (snd c)) ?calls"
    by (simp add: navigate_argument_in_enum_def arg_def switch_Domain_def)
  have r: "fst (CallTool_sequence example_stringify scripted ?calls
             initial_state no_credentials ([], [])) = \<lparr> currentDomain = Str ''invoices'' \<rparr>"
    by (simp add: CallTool_def CallTool_try_def arg_def switch_Domain_def initial_state_def
        startsWith_def handleReportTool_def getClient_def no_credentials_def)
  from navigation_state_in_enumerated_set [where state = initial_state and calls = ?calls
      and stringify = example_stringify and fetch = scripted
      and p = no_credentials and s = "([], [])"] i l r
  have "in_enumerated_set \<lparr> currentDomain = Str ''invoices'' \<rparr>" by simp
  with a i l r show ?thesis by blast
qed

text \<open>
  The scenario of the specification: after \<open>navigate\<close> to invoices the listing holds
  \<open>xero_invoices_create\<close>, and calling it posts the invoice, wrapped in \<open>Invoices\<close>, to the
  invoices resource.
\<close>

lemma create_invoice_scenario:
  "fst (snd (CallTool example_stringify scripted ''xero_navigate'' (Some [(''domain'', Str ''invoices'')])
               initial_state with_client ([ok_response (Obj [])], [])))
     = \<lparr> currentDomain = Str ''invoices'' \<rparr>"
  "\<lparr> name = ''xero_invoices_create'' \<rparr> \<in> set (projr (ListTools \<lparr> currentDomain = Str ''invoices'' \<rparr>))"
  "CallTool example_stringify scripted ''xero_invoices_create''
     (Some [(''Type'', Str ''ACCREC''), (''ContactID'', Str ''c1''),
            (''LineItems'', Arr [Obj [(''Description'', Str ''x''), (''Quantity'', Num 1),
                                      (''UnitAmount'', Num 5), (''AccountCode'', Str ''200'')]])])
     \<lparr> currentDomain = Str ''invoices'' \<rparr> with_client ([ok_response (Obj [])], [])
   = (\<lparr> content = [''{}''], isError = False \<rparr>, \<lparr> currentDomain = Str ''invoices'' \<rparr>, with_client,
      ([], [http_request_of example_client ''POST'' ''Invoices'' None
              (Obj [(''Invoices'',
                     Arr [Obj [(''Type'', Str ''ACCREC''),
                               (''Contact'', Obj [(''ContactID'', Str ''c1'')]),
                               (''LineItems'',
                                Arr [Obj [(''Description'', Str ''x''), (''Quantity'', Num 1),
                                          (''UnitAmount'', Num 5), (''AccountCode'', Str ''200'')]])]])])]))"
proof -
  show "fst (snd (CallTool example_stringify scripted ''xero_navigate'' (Some [(''domain'', Str ''invoices'')])
               initial_state with_client ([ok_response (Obj [])], [])))
     = \<lparr> currentDomain = Str ''invoices'' \<rparr>"
    by (simp add: CallTool_state arg_def initial_state_def)
  show "\<lparr> name = ''xero_invoices_create'' \<rparr> \<in> set (projr (ListTools \<lparr> currentDomain = Str ''invoices'' \<rparr>))"
    by (simp add: ListTools_def switch_Domain_def invoiceTools_def)
  have h: "startsWith ''xero_invoices_create'' ''xero_invoices_''"
    by (simp add: startsWith_def)
  show "CallTool example_stringify scripted ''xero_invoices_create''
     (Some [(''Type'', Str ''ACCREC''), (''ContactID'', Str ''c1''),
            (''LineItems'', Arr [Obj [(''Description'', Str ''x''), (''Quantity'', Num 1),
                                      (''UnitAmount'', Num 5), (''AccountCode'', Str ''200'')]])])
     \<lparr> currentDomain = Str ''invoices'' \<rparr> with_client ([ok_response (Obj [])], [])
   = (\<lparr> content = [''{}''], isError = False \<rparr>, \<lparr> currentDomain = Str ''invoices'' \<rparr>, with_client,
      ([], [http_request_of example_client ''POST'' ''Invoices'' None
              (Obj [(''Invoices'',
                     Arr [Obj [(''Type'', Str ''ACCREC''),
                               (''Contact'', Obj [(''ContactID'', Str ''c1'')]),
                               (''LineItems'',
                                Arr [Obj [(''Description'', Str ''x''), (''Quantity'', Num 1),
                                          (''UnitAmount'', Num 5), (''AccountCode'', Str ''200'')]])]])])]))"
    using invoices_prefix [OF h] h
    by (simp add: CallTool_def CallTool_try_def handleInvoiceTool_def getClient_def
        with_client_def text_result_def arg_def add_if_def post_def request_def scripted_def
        ok_response_def ok_def example_stringify_def caught_def)
qed

section \<open>Credentials in gateway mode\<close>

text \<open>
  C1, as stated, fails where a header is present with an empty value: the listener
  treats it as missing, answers 401, and neither resets the client nor overwrites the
  configuration.
\<close>

theorem gateway_empty_header_counterexample:
  "\<not> (req_headers empty_token_request ''x-xero-access-token'' \<noteq> None
        \<and> req_headers empty_token_request ''x-xero-tenant-id'' \<noteq> None
      \<longrightarrow> fst (requestListener True [] empty_token_request with_client) = HandleRequest
          \<and> client_instance (snd (requestListener True [] empty_token_request with_client)) = None
          \<and> env (snd (requestListener True [] empty_token_request with_client)) ''XERO_ACCESS_TOKEN''
              = req_headers empty_token_request ''x-xero-access-token''
          \<and> env (snd (requestListener True [] empty_token_request with_client)) ''XERO_TENANT_ID''
              = req_headers empty_token_request ''x-xero-tenant-id'')"
  by (simp add: requestListener_def empty_token_request_def with_client_def)

text \<open>
  C1, amended. In gateway mode, on the protocol path: when either header is missing or
  empty, the answer is 401, its body lists both header names under \<open>required\<close>, the
  request is not handed to the protocol transport and the process state is untouched.
  When both headers are present and not empty, the cached client is dropped and the two
  configuration entries are overwritten with the pair before the request is handed on,
  so the next \<open>getClient\<close> builds a client on exactly that pair.
\<close>

theorem gateway_credentials:
  assumes "pathname req = ''/mcp''"
  shows "(absent (req_headers req ''x-xero-access-token'') \<or> absent (req_headers req ''x-xero-tenant-id'')
            \<longrightarrow> requestListener True now req p = (Answered 401 missing_credentials, p))
         \<and> (req_headers req ''x-xero-access-token'' = Some token \<and> token \<noteq> []
              \<and> req_headers req ''x-xero-tenant-id'' = Some tenant \<and> tenant \<noteq> []
            \<longrightarrow> fst (requestListener True now req p) = HandleRequest
                \<and> client_instance (snd (requestListener True now req p)) = None
                \<and> env (snd (requestListener True now req p)) ''XERO_ACCESS_TOKEN'' = Some token
                \<and> env (snd (requestListener True now req p)) ''XERO_TENANT_ID'' = Some tenant
                \<and> fst (getClient (snd (requestListener True now req p)))
                    = Inr \<lparr> config = \<lparr> accessToken = token, tenantId = tenant \<rparr> \<rparr>)
         \<and> get_prop missing_credentials ''required''
              = Inr (Arr [Str ''X-Xero-Access-Token'', Str ''X-Xero-Tenant-Id''])"
proof -
  have a: "requestListener True now req p = (Answered 401 missing_credentials, p)"
    if "absent (req_headers req ''x-xero-access-token'') \<or> absent (req_headers req ''x-xero-tenant-id'')"
    using that assms by (simp add: requestListener_def missing_credentials_def)
  have b: "requestListener True now req p
             = (HandleRequest, \<lparr> client_instance = None,
                  env = (env p)(''XERO_ACCESS_TOKEN'' \<mapsto> token, ''XERO_TENANT_ID'' \<mapsto> tenant) \<rparr>)"
    if "req_headers req ''x-xero-access-token'' = Some token" "token \<noteq> []"
       "req_headers req ''x-xero-tenant-id'' = Some tenant" "tenant \<noteq> []"
    using that assms by (simp add: requestListener_def resetClient_def)
  have c: "get_prop missing_credentials ''required''
              = Inr (Arr [Str ''X-Xero-Access-Token'', Str ''X-Xero-Tenant-Id''])"
    by (simp add: missing_credentials_def)
  from a b c show ?thesis by (simp add: getClient_def Let_def)
qed

theorem gateway_credentials_witness:
  "pathname both_headers_request = ''/mcp''
   \<and> req_headers both_headers_request ''x-xero-access-token'' = Some ''token-1''
   \<and> req_headers both_headers_request ''x-xero-tenant-id'' = Some ''tenant-1''
   \<and> fst (requestListener True [] both_headers_request with_client) = HandleRequest
   \<and> fst (getClient (snd (requestListener True [] both_headers_request with_client)))
        = Inr \<lparr> config = \<lparr> accessToken = ''token-1'', tenantId = ''tenant-1'' \<rparr> \<rparr>
   \<and> absent (req_headers empty_token_request ''x-xero-access-token'')
   \<and> requestListener True [] empty_token_request with_client = (Answered 401 missing_credentials, with_client)"
proof -
  have p: "pathname both_headers_request = ''/mcp''" "pathname empty_token_request = ''/mcp''"
    by (simp_all add: both_headers_request_def empty_token_request_def)
  have h: "req_headers both_headers_request ''x-xero-access-token'' = Some ''token-1''"
    "req_headers both_headers_request ''x-xero-tenant-id'' = Some ''tenant-1''"
    "''token-1'' \<noteq> []" "''tenant-1'' \<noteq> []"
    by (simp_all add: both_headers_request_def)
  have e: "absent (req_headers empty_token_request ''x-xero-access-token'')"
    by (simp add: empty_token_request_def)
  from gateway_credentials [OF p(1), where token = "''token-1''" and tenant = "''tenant-1''"
      and now = "[]" and p = with_client]
    gateway_credentials [OF p(2), where now = "[]" and p = with_client]
    p h e
  show ?thesis by simp
qed

section \<open>Pagination\<close>

lemma loop_step_error:
  assumes "get fetch this path (Some (page_params params page)) s0 = (Inl e, s1)"
  shows "getPaginated_loop fetch this path params key acc page s0 = Some (Inl e, s1)"
  by (subst getPaginated_loop.simps) (simp add: assms)

lemma loop_step_select_error:
  assumes "get fetch this path (Some (page_params params page)) s0 = (Inr r, s1)"
    and "select_items key r = Inl e"
  shows "getPaginated_loop fetch this path params key acc page s0 = Some (Inl e, s1)"
  by (subst getPaginated_loop.simps) (simp add: assms)

lemma loop_step_falsy:
  assumes "get fetch this path (Some (page_params params page)) s0 = (Inr r, s1)"
    and "select_items key r = Inr items" and "\<not> truthy items"
  shows "getPaginated_loop fetch this path params key acc page s0 = Some (Inr acc, s1)"
  by (subst getPaginated_loop.simps) (simp add: assms)

lemma loop_step_array:
  assumes "get fetch this path (Some (page_params params page)) s0 = (Inr r, s1)"
    and "select_items key r = Inr (Arr xs)"
  shows "getPaginated_loop fetch this path params key acc page s0 =
           (if XERO_PAGE_SIZE \<le> length xs
            then getPaginated_loop fetch this path params key (acc @ xs) (page + 1) s1
            else Some (Inr (acc @ xs), s1))"
  by (subst getPaginated_loop.simps [of fetch this path params key acc page s0])
     (simp add: assms items_length_def js_gt_def js_ge_def XERO_PAGE_SIZE_def)

lemma loop_step_any:
  "(\<exists>res. getPaginated_loop fetch this path params key acc page s0
             = Some (res, snd (get fetch this path (Some (page_params params page)) s0)))
   \<or> (\<exists>xs. getPaginated_loop fetch this path params key acc page s0
             = getPaginated_loop fetch this path params key (acc @ xs) (page + 1)
                 (snd (get fetch this path (Some (page_params params page)) s0)))"
proof -
  note eq = getPaginated_loop.simps [of fetch this path params key acc page s0]
  show ?thesis
    by (subst eq, subst eq) (auto split: prod.splits sum.splits option.splits)
qed


lemma get_page:
  "1 \<le> k \<Longrightarrow>
   get fetch this path (Some (page_params params k)) (after_pages fetch this path params (k - 1) s)
     = (page_response fetch this path params k s, after_pages fetch this path params k s)"
  by (cases k) (simp_all add: page_response_def)

lemma loop_skips_full_pages:
  assumes "1 \<le> p"
    and "\<And>k. p \<le> k \<Longrightarrow> k < p + n \<Longrightarrow>
           \<exists>r. page_response fetch this path params k s = Inr r
               \<and> select_items key r = Inr (Arr (items k))
               \<and> XERO_PAGE_SIZE \<le> length (items k)"
  shows "getPaginated_loop fetch this path params key acc p
           (after_pages fetch this path params (p - 1) s)
         = getPaginated_loop fetch this path params key (acc @ concat (map items [p..<p + n]))
             (p + n) (after_pages fetch this path params (p + n - 1) s)"
  using assms(2)
proof (induction n)
  case 0
  show ?case by simp
next
  case (Suc n)
  have "p \<le> p + n" "p + n < p + Suc n" by simp_all
  from Suc.prems [OF this] obtain r where
    r: "page_response fetch this path params (p + n) s = Inr r"
       "select_items key r = Inr (Arr (items (p + n)))"
       "XERO_PAGE_SIZE \<le> length (items (p + n))"
    by blast
  from assms(1) have "1 \<le> p + n" by simp
  from get_page [OF this, of fetch this path params s] r(1)
  have g: "get fetch this path (Some (page_params params (p + n)))
             (after_pages fetch this path params (p + n - 1) s)
           = (Inr r, after_pages fetch this path params (p + n) s)"
    by simp
  have "getPaginated_loop fetch this path params key acc p
           (after_pages fetch this path params (p - 1) s)
         = getPaginated_loop fetch this path params key (acc @ concat (map items [p..<p + n]))
             (p + n) (after_pages fetch this path params (p + n - 1) s)"
    using Suc.prems by (intro Suc.IH) simp
  also have "\<dots> = getPaginated_loop fetch this path params key
                     ((acc @ concat (map items [p..<p + n])) @ items (p + n))
                     (p + n + 1) (after_pages fetch this path params (p + n) s)"
    using loop_step_array [OF g r(2)] r(3) by simp
  finally show ?case by simp
qed

lemma getPaginated_full_then:
  assumes "\<And>k. 1 \<le> k \<Longrightarrow> k \<le> n \<Longrightarrow>
           \<exists>r. page_response fetch this path params k s = Inr r
               \<and> select_items key r = Inr (Arr (items k))
               \<and> XERO_PAGE_SIZE \<le> length (items k)"
  shows "getPaginated fetch this path params key s
         = getPaginated_loop fetch this path params key (concat (map items [1..<n + 1]))
             (n + 1) (after_pages fetch this path params n s)"
proof -
  have "getPaginated_loop fetch this path params key [] 1
           (after_pages fetch this path params (1 - 1) s)
         = getPaginated_loop fetch this path params key ([] @ concat (map items [1..<1 + n]))
             (1 + n) (after_pages fetch this path params (1 + n - 1) s)"
    by (rule loop_skips_full_pages) (simp_all add: assms)
  then show ?thesis by (simp add: getPaginated_def)
qed


lemma loop_terminates_by:
  assumes "1 \<le> p" and "p \<le> m"
    and "page_response fetch this path params m s = Inr r"
    and "select_items key r = Inr items"
    and "\<not> truthy items \<or> (\<exists>xs. items = Arr xs \<and> length xs < XERO_PAGE_SIZE)"
  shows "\<exists>j res. p \<le> j \<and> j \<le> m
           \<and> getPaginated_loop fetch this path params key acc p
                (after_pages fetch this path params (p - 1) s)
              = Some (res, after_pages fetch this path params j s)"
  using assms(1,2)
proof (induction "m - p" arbitrary: p acc)
  case 0
  then have pm: "p = m" by simp
  from get_page [OF "0.prems"(1), of fetch this path params s] assms(3) pm
  have g: "get fetch this path (Some (page_params params p))
             (after_pages fetch this path params (p - 1) s)
           = (Inr r, after_pages fetch this path params p s)"
    by simp
  from assms(5) have "\<exists>res. getPaginated_loop fetch this path params key acc p
                (after_pages fetch this path params (p - 1) s)
              = Some (res, after_pages fetch this path params p s)"
  proof
    assume "\<not> truthy items"
    from loop_step_falsy [OF g assms(4) this] show ?thesis by blast
  next
    assume "\<exists>xs. items = Arr xs \<and> length xs < XERO_PAGE_SIZE"
    then obtain xs where xs: "items = Arr xs" "length xs < XERO_PAGE_SIZE" by blast
    from assms(4) xs(1) have "select_items key r = Inr (Arr xs)" by simp
    from loop_step_array [OF g this] xs(2) show ?thesis by simp
  qed
  with pm show ?case by blast
next
  case (Suc d)
  from Suc.hyps(2) have lt: "p < m" by simp
  from get_page [OF Suc.prems(1), of fetch this path params s]
  have s1: "snd (get fetch this path (Some (page_params params p))
             (after_pages fetch this path params (p - 1) s))
           = after_pages fetch this path params p s"
    by simp
  from loop_step_any [of fetch this path params key acc p
      "after_pages fetch this path params (p - 1) s"]
  show ?case
  proof
    assume "\<exists>res. getPaginated_loop fetch this path params key acc p
               (after_pages fetch this path params (p - 1) s)
             = Some (res, snd (get fetch this path (Some (page_params params p))
                                 (after_pages fetch this path params (p - 1) s)))"
    with s1 lt show ?thesis by (metis less_imp_le order_refl)
  next
    assume "\<exists>xs. getPaginated_loop fetch this path params key acc p
               (after_pages fetch this path params (p - 1) s)
             = getPaginated_loop fetch this path params key (acc @ xs) (p + 1)
                 (snd (get fetch this path (Some (page_params params p))
                         (after_pages fetch this path params (p - 1) s)))"
    then obtain xs where
      c: "getPaginated_loop fetch this path params key acc p
               (after_pages fetch this path params (p - 1) s)
             = getPaginated_loop fetch this path params key (acc @ xs) (p + 1)
                 (after_pages fetch this path params (p + 1 - 1) s)"
      using s1 by auto
    from Suc.hyps(2) lt have "d = m - (p + 1)" "1 \<le> p + 1" "p + 1 \<le> m" by simp_all
    from Suc.hyps(1) [OF this, of "acc @ xs"] obtain j res where
      "p + 1 \<le> j" "j \<le> m"
      "getPaginated_loop fetch this path params key (acc @ xs) (p + 1)
                (after_pages fetch this path params (p + 1 - 1) s)
              = Some (res, after_pages fetch this path params j s)"
      by blast
    with c show ?thesis by (metis add_leD1)
  qed
qed

lemma string_of_small:
  "string_of_nat (Suc 0) = ''1''" "string_of_nat (Suc (Suc 0)) = ''2''"
  "string_of_nat (Suc (Suc (Suc 0))) = ''3''" "string_of_nat (Suc (Suc (Suc (Suc 0)))) = ''4''"
  "string_of_nat 404 = ''404''"
  by code_simp+


lemma length_numbered [simp]: "length (numbered i n) = n"
  by (simp add: numbered_def)

lemma get_scripted_ok:
  "get scripted c path ps (ok_response v # rs, reqs)
     = (Inr v, (rs, reqs @ [http_request_of c ''GET'' path ps Undefined]))"
  by (simp add: get_def request_def scripted_def ok_response_def ok_def)

lemma select_items_invoices_page:
  "select_items None (Obj [(''Id'', Str a), (''Status'', Str b), (''Invoices'', Arr xs)]) = Inr (Arr xs)"
  "select_items (Some ''Invoices'') (Obj [(''Id'', Str a), (''Status'', Str b), (''Invoices'', Arr xs)]) = Inr (Arr xs)"
  by (simp_all add: select_items_def)




lemma page_request_eq:
  "page_request k
     = http_request_of example_client ''GET'' ''Invoices'' (Some [(''page'', k)]) Undefined"
  by (simp add: page_request_def http_request_of_def XERO_API_BASE_def example_client_def)


lemma after_pages_scripted:
  "n \<le> length vs \<Longrightarrow>
   after_pages scripted c path ps n (map ok_response vs @ rest, reqs)
     = (drop n (map ok_response vs) @ rest,
        reqs @ map (\<lambda>k. http_request_of c ''GET'' path (Some (page_params ps k)) Undefined) [1..<n + 1])"
proof (induction n)
  case 0
  show ?case by simp
next
  case (Suc n)
  then have n: "n < length vs" by simp
  then have d: "drop n (map ok_response vs) = ok_response (vs ! n) # drop (Suc n) (map ok_response vs)"
    by (simp add: Cons_nth_drop_Suc [symmetric])
  from Suc have IH: "after_pages scripted c path ps n (map ok_response vs @ rest, reqs)
     = (drop n (map ok_response vs) @ rest,
        reqs @ map (\<lambda>k. http_request_of c ''GET'' path (Some (page_params ps k)) Undefined) [1..<n + 1])"
    by simp
  show ?case
    by (simp only: after_pages.simps IH d append_Cons get_scripted_ok) simp
qed

lemma page_response_scripted:
  assumes "1 \<le> k" and "k \<le> length vs"
  shows "page_response scripted c path ps k (map ok_response vs @ rest, reqs) = Inr (vs ! (k - 1))"
proof -
  from assms have n: "k - 1 < length vs" by simp
  then have d: "drop (k - 1) (map ok_response vs)
                = ok_response (vs ! (k - 1)) # drop (Suc (k - 1)) (map ok_response vs)"
    by (simp add: Cons_nth_drop_Suc [symmetric])
  from n have "k - 1 \<le> length vs" by simp
  from after_pages_scripted [OF this, of c path ps rest reqs] d show ?thesis
    by (simp add: page_response_def get_scripted_ok)
qed





lemma request_not_ok:
  assumes "fetch (http_request_of this verb path params body_arg) s = (Response r, s')"
    and "\<not> ok r"
  shows "request fetch this verb path params body_arg s
           = (Inl (Error (''Xero API error '' @ verb @ '' /'' @ path @ '' (''
                          @ string_of_nat (status r) @ ''): '' @ body_text r)), s')"
  using assms by (simp add: request_def)


text \<open>
  C5. When the response to some page \<open>m\<close> yields no items or an array of fewer than 100,
  \<open>getPaginated\<close> returns, and it returns after the request for some page \<open>j\<close> with
  \<open>j \<le> m\<close>: nothing is requested after page \<open>m\<close>. When every page before \<open>m\<close> is a full
  array, it returns right after the request for page \<open>m\<close>.
\<close>

theorem getPaginated_stops_at_short_page:
  assumes "1 \<le> m"
    and "page_response fetch this path params m s = Inr r"
    and "select_items responseKey r = Inr items"
    and "\<not> truthy items \<or> (\<exists>xs. items = Arr xs \<and> length xs < XERO_PAGE_SIZE)"
  shows "(\<exists>j res. 1 \<le> j \<and> j \<le> m
            \<and> getPaginated fetch this path params responseKey s
                = Some (res, after_pages fetch this path params j s))
         \<and> ((\<forall>k. 1 \<le> k \<and> k < m \<longrightarrow>
                (\<exists>r' xs. page_response fetch this path params k s = Inr r'
                        \<and> select_items responseKey r' = Inr (Arr xs)
                        \<and> XERO_PAGE_SIZE \<le> length xs))
             \<longrightarrow> (\<exists>res. getPaginated fetch this path params responseKey s
                          = Some (res, after_pages fetch this path params m s)))"
proof
  have "1 \<le> (1::nat)" by simp
  from loop_terminates_by [OF this assms(1) assms(2) assms(3) assms(4), of "[]"]
  show "\<exists>j res. 1 \<le> j \<and> j \<le> m
            \<and> getPaginated fetch this path params responseKey s
                = Some (res, after_pages fetch this path params j s)"
    by (simp add: getPaginated_def)
next
  show "(\<forall>k. 1 \<le> k \<and> k < m \<longrightarrow>
                (\<exists>r' xs. page_response fetch this path params k s = Inr r'
                        \<and> select_items responseKey r' = Inr (Arr xs)
                        \<and> XERO_PAGE_SIZE \<le> length xs))
             \<longrightarrow> (\<exists>res. getPaginated fetch this path params responseKey s
                          = Some (res, after_pages fetch this path params m s))"
  proof
    assume H: "\<forall>k. 1 \<le> k \<and> k < m \<longrightarrow>
                (\<exists>r' xs. page_response fetch this path params k s = Inr r'
                        \<and> select_items responseKey r' = Inr (Arr xs)
                        \<and> XERO_PAGE_SIZE \<le> length xs)"
    have "\<exists>f. \<forall>k. 1 \<le> k \<and> k < m \<longrightarrow>
                (\<exists>r'. page_response fetch this path params k s = Inr r'
                        \<and> select_items responseKey r' = Inr (Arr (f k))
                        \<and> XERO_PAGE_SIZE \<le> length (f k))"
      by (rule choice) (use H in blast)
    then obtain f where f: "\<And>k. 1 \<le> k \<Longrightarrow> k < m \<Longrightarrow>
                (\<exists>r'. page_response fetch this path params k s = Inr r'
                        \<and> select_items responseKey r' = Inr (Arr (f k))
                        \<and> XERO_PAGE_SIZE \<le> length (f k))"
      by blast
    have full: "\<exists>r'. page_response fetch this path params k s = Inr r'
                        \<and> select_items responseKey r' = Inr (Arr (f k))
                        \<and> XERO_PAGE_SIZE \<le> length (f k)" if "1 \<le> k" "k \<le> m - 1" for k
      using f [of k] that assms(1) by simp
    from getPaginated_full_then [of "m - 1" fetch this path params s responseKey f, OF full] assms(1)
    have start: "getPaginated fetch this path params responseKey s
         = getPaginated_loop fetch this path params responseKey (concat (map f [1..<m]))
             m (after_pages fetch this path params (m - 1) s)"
      by simp
    from get_page [OF assms(1), of fetch this path params s] assms(2)
    have g: "get fetch this path (Some (page_params params m))
               (after_pages fetch this path params (m - 1) s)
             = (Inr r, after_pages fetch this path params m s)"
      by simp
    from assms(4) have "\<exists>res. getPaginated_loop fetch this path params responseKey
             (concat (map f [1..<m])) m (after_pages fetch this path params (m - 1) s)
           = Some (res, after_pages fetch this path params m s)"
    proof
      assume "\<not> truthy items"
      from loop_step_falsy [OF g assms(3) this] show ?thesis by blast
    next
      assume "\<exists>xs. items = Arr xs \<and> length xs < XERO_PAGE_SIZE"
      then obtain xs where xs: "items = Arr xs" "length xs < XERO_PAGE_SIZE" by blast
      from assms(3) xs(1) have "select_items responseKey r = Inr (Arr xs)" by simp
      from loop_step_array [OF g this] xs(2) show ?thesis by simp
    qed
    with start show "\<exists>res. getPaginated fetch this path params responseKey s
                          = Some (res, after_pages fetch this path params m s)"
      by simp
  qed
qed

lemma upt_Suc_0_5: "[Suc 0..<5] = [1, 2, 3, 4::nat]"
  by (simp add: upt_rec)

lemma string_of_numerals:
  "string_of_nat 1 = ''1''" "string_of_nat 2 = ''2''" "string_of_nat 3 = ''3''"
  "string_of_nat 4 = ''4''" "string_of_nat 500 = ''500''"
  by code_simp+

theorem getPaginated_stops_at_short_page_witness:
  "page_response scripted example_client ''Invoices'' None 4
       ([invoices_page (numbered 0 100), invoices_page (numbered 100 100),
         invoices_page (numbered 200 100), invoices_page [], invoices_page (numbered 300 5)], [])
     = Inr (Obj [(''Id'', Str ''b2c0''), (''Status'', Str ''OK''), (''Invoices'', Arr [])])
   \<and> select_items None (Obj [(''Id'', Str ''b2c0''), (''Status'', Str ''OK''), (''Invoices'', Arr [])])
       = Inr (Arr [])
   \<and> length ([] :: jsval list) < XERO_PAGE_SIZE
   \<and> (\<exists>res. getPaginated scripted example_client ''Invoices'' None None
          ([invoices_page (numbered 0 100), invoices_page (numbered 100 100),
            invoices_page (numbered 200 100), invoices_page [], invoices_page (numbered 300 5)], [])
        = Some (res, ([invoices_page (numbered 300 5)],
                      [page_request ''1'', page_request ''2'', page_request ''3'',
                       page_request ''4''])))"
proof -
  let ?v = "\<lambda>xs. Obj [(''Id'', Str ''b2c0''), (''Status'', Str ''OK''), (''Invoices'', Arr xs)]"
  let ?s0 = "([invoices_page (numbered 0 100), invoices_page (numbered 100 100),
         invoices_page (numbered 200 100), invoices_page [], invoices_page (numbered 300 5)], [])"
  let ?vs = "[?v (numbered 0 100), ?v (numbered 100 100), ?v (numbered 200 100), ?v []]"
  have s0: "?s0 = (map ok_response ?vs @ [invoices_page (numbered 300 5)], [])"
    by (simp add: invoices_page_def)
  have pr: "page_response scripted example_client ''Invoices'' None k ?s0 = Inr (?vs ! (k - 1))"
    if "1 \<le> k" "k \<le> 4" for k
    unfolding s0 using that by (subst page_response_scripted) simp_all
  have m: "1 \<le> (4::nat)" by simp
  have p4: "page_response scripted example_client ''Invoices'' None 4 ?s0 = Inr (?v [])"
    using pr [of 4] by simp
  have sel: "select_items None (?v []) = Inr (Arr [])"
    by (simp add: select_items_invoices_page)
  have short: "\<not> truthy (Arr []) \<or> (\<exists>xs. Arr [] = Arr xs \<and> length xs < XERO_PAGE_SIZE)"
    by (simp add: XERO_PAGE_SIZE_def)
  have full: "\<forall>k. 1 \<le> k \<and> k < 4 \<longrightarrow>
                (\<exists>r' xs. page_response scripted example_client ''Invoices'' None k ?s0 = Inr r'
                        \<and> select_items None r' = Inr (Arr xs)
                        \<and> XERO_PAGE_SIZE \<le> length xs)"
  proof (intro allI impI)
    fix k :: nat assume "1 \<le> k \<and> k < 4"
    then have k: "k = 1 \<or> k = 2 \<or> k = 3" by arith
    have "page_response scripted example_client ''Invoices'' None 1 ?s0 = Inr (?v (numbered 0 100))"
      "page_response scripted example_client ''Invoices'' None 2 ?s0 = Inr (?v (numbered 100 100))"
      "page_response scripted example_client ''Invoices'' None 3 ?s0 = Inr (?v (numbered 200 100))"
      using pr [of 1] pr [of 2] pr [of 3] by (simp_all add: numeral_2_eq_2 numeral_3_eq_3)
    with k show "\<exists>r' xs. page_response scripted example_client ''Invoices'' None k ?s0 = Inr r'
                        \<and> select_items None r' = Inr (Arr xs)
                        \<and> XERO_PAGE_SIZE \<le> length xs"
      by (auto simp: select_items_invoices_page XERO_PAGE_SIZE_def)
  qed
  have after: "after_pages scripted example_client ''Invoices'' None 4 ?s0
                = ([invoices_page (numbered 300 5)],
                   [page_request ''1'', page_request ''2'', page_request ''3'', page_request ''4''])"
    unfolding s0
    by (subst after_pages_scripted)
       (simp_all add: upt_Suc_0_5 page_params_def string_of_numerals string_of_small page_request_eq)
  from getPaginated_stops_at_short_page [OF m p4 sel short] full
  have "\<exists>res. getPaginated scripted example_client ''Invoices'' None None ?s0
        = Some (res, after_pages scripted example_client ''Invoices'' None 4 ?s0)"
    by blast
  with after p4 sel show ?thesis by (simp add: XERO_PAGE_SIZE_def)
qed

text \<open>
  C6. When the remote answers a request with a status outside 200 to 299, \<open>request\<close>
  throws an \<open>Error\<close> whose message holds the HTTP method, the path, the status and the raw
  body; it returns no value. \<open>get\<close>, \<open>post\<close>, \<open>put\<close> and \<open>delete\<close> are \<open>request\<close> with their
  HTTP method. In \<open>getPaginated\<close>, when such an answer comes for the page after \<open>n\<close> full
  pages, that error is the outcome of the whole call.
\<close>

theorem non_success_is_error:
  assumes "\<not> ok r"
  shows "(fetch (http_request_of this verb path params body_arg) s = (Response r, s')
            \<longrightarrow> request fetch this verb path params body_arg s
                  = (Inl (Error (''Xero API error '' @ verb @ '' /'' @ path @ '' (''
                                 @ string_of_nat (status r) @ ''): '' @ body_text r)), s'))
         \<and> get fetch this path params = request fetch this ''GET'' path params Undefined
         \<and> post fetch this path body_arg = request fetch this ''POST'' path None body_arg
         \<and> put fetch this path body_arg = request fetch this ''PUT'' path None body_arg
         \<and> delete fetch this path = request fetch this ''DELETE'' path None Undefined
         \<and> ((\<forall>k. 1 \<le> k \<and> k \<le> n \<longrightarrow>
                (\<exists>r'. page_response fetch this path params k s = Inr r'
                     \<and> select_items responseKey r' = Inr (Arr (items k))
                     \<and> XERO_PAGE_SIZE \<le> length (items k)))
             \<and> fetch (http_request_of this ''GET'' path (Some (page_params params (n + 1))) Undefined)
                  (after_pages fetch this path params n s) = (Response r, s')
            \<longrightarrow> getPaginated fetch this path params responseKey s
                  = Some (Inl (Error (''Xero API error GET /'' @ path @ '' (''
                                      @ string_of_nat (status r) @ ''): '' @ body_text r)), s'))"
proof -
  have a: "request fetch this verb path params body_arg s
                  = (Inl (Error (''Xero API error '' @ verb @ '' /'' @ path @ '' (''
                                 @ string_of_nat (status r) @ ''): '' @ body_text r)), s')"
    if "fetch (http_request_of this verb path params body_arg) s = (Response r, s')"
    by (rule request_not_ok [where fetch = fetch and this = this and verb = verb
        and path = path and params = params and body_arg = body_arg, OF that assms])
  have b: "getPaginated fetch this path params responseKey s
                  = Some (Inl (Error (''Xero API error GET /'' @ path @ '' (''
                                      @ string_of_nat (status r) @ ''): '' @ body_text r)), s')"
    if full: "\<forall>k. 1 \<le> k \<and> k \<le> n \<longrightarrow>
                (\<exists>r'. page_response fetch this path params k s = Inr r'
                     \<and> select_items responseKey r' = Inr (Arr (items k))
                     \<and> XERO_PAGE_SIZE \<le> length (items k))"
      and f: "fetch (http_request_of this ''GET'' path (Some (page_params params (n + 1))) Undefined)
                  (after_pages fetch this path params n s) = (Response r, s')"
  proof -
    from full have full': "\<exists>r'. page_response fetch this path params k s = Inr r'
                     \<and> select_items responseKey r' = Inr (Arr (items k))
                     \<and> XERO_PAGE_SIZE \<le> length (items k)" if "1 \<le> k" "k \<le> n" for k
      using that by blast
    from request_not_ok [where fetch = fetch and this = this and verb = "''GET''"
        and path = path and body_arg = Undefined, OF f assms]
    have g: "get fetch this path (Some (page_params params (n + 1)))
               (after_pages fetch this path params n s)
             = (Inl (Error (''Xero API error GET /'' @ path @ '' (''
                            @ string_of_nat (status r) @ ''): '' @ body_text r)), s')"
      by (simp add: get_def)
    from getPaginated_full_then [of n fetch this path params s responseKey items, OF full']
      loop_step_error [OF g]
    show ?thesis by simp
  qed
  from a b show ?thesis by (simp add: get_def post_def put_def delete_def)
qed

theorem non_success_is_error_witness:
  "\<not> ok \<lparr> status = 404, body_text = ''Not Found'', body_json = Inl (SyntaxError ''Unexpected token'') \<rparr>
   \<and> get scripted example_client ''Invoices/xyz'' None
        ([Response \<lparr> status = 404, body_text = ''Not Found'',
                      body_json = Inl (SyntaxError ''Unexpected token'') \<rparr>], [])
      = (Inl (Error ''Xero API error GET /Invoices/xyz (404): Not Found''),
         ([], [http_request_of example_client ''GET'' ''Invoices/xyz'' None Undefined]))
   \<and> getPaginated scripted example_client ''Invoices'' None None
        ([invoices_page (numbered 0 100),
          Response \<lparr> status = 404, body_text = ''Not Found'',
                      body_json = Inl (SyntaxError ''Unexpected token'') \<rparr>], [])
      = Some (Inl (Error ''Xero API error GET /Invoices (404): Not Found''),
              ([], [page_request ''1'', page_request ''2'']))"
proof -
  let ?r = "\<lparr> status = 404, body_text = ''Not Found'', body_json = Inl (SyntaxError ''Unexpected token'') \<rparr>"
  let ?q = "http_request_of example_client ''GET'' ''Invoices/xyz'' None Undefined"
  let ?v = "Obj [(''Id'', Str ''b2c0''), (''Status'', Str ''OK''), (''Invoices'', Arr (numbered 0 100))]"
  let ?s0 = "([invoices_page (numbered 0 100), Response ?r], [])"
  let ?items = "\<lambda>k::nat. numbered 0 100"
  have n: "\<not> ok ?r" by (simp add: ok_def)
  have f: "scripted ?q ([Response ?r], []) = (Response ?r, ([], [?q]))"
    by (simp add: scripted_def)
  from non_success_is_error [OF n, where fetch = scripted and this = example_client
      and verb = "''GET''" and path = "''Invoices/xyz''" and params = None
      and body_arg = Undefined and s = "([Response ?r], [])" and s' = "([], [?q])"] f
  have one: "get scripted example_client ''Invoices/xyz'' None ([Response ?r], [])
      = (Inl (Error (''Xero API error '' @ ''GET'' @ '' /'' @ ''Invoices/xyz'' @ '' (''
                     @ string_of_nat (status ?r) @ ''): '' @ body_text ?r)), ([], [?q]))"
    by simp
  have s0: "?s0 = (map ok_response [?v] @ [Response ?r], [])"
    by (simp add: invoices_page_def)
  have p1: "page_response scripted example_client ''Invoices'' None 1 ?s0 = Inr ?v"
    unfolding s0 by (subst page_response_scripted) simp_all
  have full: "\<forall>k. 1 \<le> k \<and> k \<le> 1 \<longrightarrow>
                (\<exists>r'. page_response scripted example_client ''Invoices'' None k ?s0 = Inr r'
                     \<and> select_items None r' = Inr (Arr (?items k))
                     \<and> XERO_PAGE_SIZE \<le> length (?items k))"
  proof (intro allI impI)
    fix k :: nat assume "1 \<le> k \<and> k \<le> 1"
    then have "k = 1" by arith
    with p1 show "\<exists>r'. page_response scripted example_client ''Invoices'' None k ?s0 = Inr r'
                     \<and> select_items None r' = Inr (Arr (?items k))
                     \<and> XERO_PAGE_SIZE \<le> length (?items k)"
      by (simp add: select_items_invoices_page XERO_PAGE_SIZE_def)
  qed
  have a1: "after_pages scripted example_client ''Invoices'' None 1 ?s0
              = ([Response ?r], [page_request ''1''])"
    unfolding s0
    by (subst after_pages_scripted)
       (simp_all add: page_params_def string_of_small page_request_eq)
  have f2: "scripted (http_request_of example_client ''GET'' ''Invoices''
                        (Some (page_params None (1 + 1))) Undefined)
              (after_pages scripted example_client ''Invoices'' None 1 ?s0)
            = (Response ?r, ([], [page_request ''1'', page_request ''2'']))"
    by (simp only: a1) (simp add: scripted_def page_params_def page_request_eq string_of_small)
  from non_success_is_error [OF n, where fetch = scripted and this = example_client
      and path = "''Invoices''" and params = None and n = 1 and items = ?items
      and responseKey = None and s = ?s0
      and s' = "([], [page_request ''1'', page_request ''2''])"] full f2
  have two: "getPaginated scripted example_client ''Invoices'' None None ?s0
      = Some (Inl (Error (''Xero API error GET /'' @ ''Invoices'' @ '' (''
                     @ string_of_nat (status ?r) @ ''): '' @ body_text ?r)),
              ([], [page_request ''1'', page_request ''2'']))"
    by blast
  from n one two show ?thesis by (simp add: string_of_small)
qed

text \<open>
  A page answered with status 204 is \<open>null\<close> to \<open>getPaginated\<close>, which reads a property of
  it: the call ends in a \<open>TypeError\<close>.
\<close>

lemma request_no_content:
  assumes "fetch (http_request_of this verb path params body_arg) s = (Response r, s')"
    and "status r = 204"
  shows "request fetch this verb path params body_arg s = (Inr Null, s')"
  using assms by (simp add: request_def ok_def)

lemma select_items_null: "\<exists>m. select_items responseKey Null = Inl (TypeError m)"
  by (simp add: select_items_def split: option.splits)

lemma getPaginated_no_content_page:
  assumes "fetch (http_request_of this ''GET'' path (Some (page_params params 1)) Undefined) s
             = (Response r, s')"
    and "status r = 204"
  shows "\<exists>m. getPaginated fetch this path params responseKey s = Some (Inl (TypeError m), s')"
proof -
  from request_no_content [where fetch = fetch and this = this and verb = "''GET''"
      and path = path and body_arg = Undefined, OF assms]
  have g: "get fetch this path (Some (page_params params 1)) s = (Inr Null, s')"
    by (simp add: get_def)
  from select_items_null [of responseKey] obtain m where
    "select_items responseKey Null = Inl (TypeError m)" by blast
  from loop_step_select_error [OF g this] show ?thesis
    by (auto simp: getPaginated_def)
qed

text \<open>
  C9, as stated, fails for \<open>getPaginated\<close>, which is one of the client's operations:
  when the first page is answered with status 204 the call does not give \<open>null\<close>. The
  page is \<open>null\<close>, \<open>Object.values\<close> of it throws, and the call ends in that error.
\<close>

theorem getPaginated_no_content_counterexample:
  "getPaginated scripted example_client ''Invoices'' None None
       ([Response \<lparr> status = 204, body_text = [],
                     body_json = Inl (SyntaxError ''Unexpected end of JSON input'') \<rparr>], [])
     = Some (Inl (TypeError ''Cannot convert undefined or null to object''),
             ([], [page_request ''1'']))"
proof -
  let ?r = "\<lparr> status = 204, body_text = [],
              body_json = Inl (SyntaxError ''Unexpected end of JSON input'') \<rparr>"
  have f: "scripted (http_request_of example_client ''GET'' ''Invoices''
                       (Some (page_params None 1)) Undefined) ([Response ?r], [])
             = (Response ?r, ([], [page_request ''1'']))"
    by (simp add: scripted_def page_request_eq page_params_def string_of_small)
  have st: "status ?r = 204" by simp
  from request_no_content [where fetch = scripted and this = example_client
      and verb = "''GET''" and path = "''Invoices''" and body_arg = Undefined, OF f st]
  have g: "get scripted example_client ''Invoices'' (Some (page_params None 1))
             ([Response ?r], [])
           = (Inr Null, ([], [page_request ''1'']))"
    by (simp add: get_def)
  have sel: "select_items None Null
               = Inl (TypeError ''Cannot convert undefined or null to object'')"
    by (simp add: select_items_def)
  from loop_step_select_error [OF g sel] show ?thesis
    by (simp add: getPaginated_def)
qed

end
